theory Spec2Isabelle
  imports Main "HOL-Library.Word"
begin

section \<open>The Jenkins controller: data model\<close>

text \<open>
  This theory embeds \<^verbatim>\<open>pkg/controller/jenkins/jenkins_controller.go\<close>: the
  top-level \<^verbatim>\<open>Reconcile\<close> wrapper with its failure map, the inner
  \<^verbatim>\<open>reconcile\<close> pass, \<^verbatim>\<open>setDefaults\<close> and
  \<^verbatim>\<open>handleDeprecatedData\<close>. Log lines are not modelled.
\<close>

text \<open>
  Modelled from the spec: the type declarations of the document (package
  \<^verbatim>\<open>v1alpha2\<close>), which the controller file uses and does not contain. As in
  section 3 of the spec, a document has a \<^verbatim>\<open>Spec\<close> (container definitions,
  plugin list, service definitions, API settings, backup and seed-job configuration) and
  a \<^verbatim>\<open>Status\<close> (provisioning start and the two completion times). The records
  hold the fields that the controller reads or writes. A struct that the controller
  compares with its zero value through \<^verbatim>\<open>reflect.DeepEqual\<close> also carries its
  remaining fields, as one value that is \<open>None\<close> when all of them are zero. A Go map
  is an \<open>option\<close> of an association list, \<open>None\<close> being the nil map, which
  \<^verbatim>\<open>DeepEqual\<close> tells from an empty one.
\<close>

typedecl other_fields

type_synonym Time = int
type_synonym Duration = int \<comment> \<open>nanoseconds\<close>

record EnvVar =
  EnvVar_Name :: string
  EnvVar_Value :: string

record Probe =
  Probe_Path :: string
  Probe_Port :: string
  Probe_Scheme :: string
  InitialDelaySeconds :: "32 word"
  TimeoutSeconds :: "32 word"
  FailureThreshold :: "32 word"

record ResourceRequirements =
  Limits :: "(string \<times> string) list option"
  Requests :: "(string \<times> string) list option"

record Container =
  Container_Name :: string
  Image :: string
  ImagePullPolicy :: string
  ReadinessProbe :: "Probe option"
  LivenessProbe :: "Probe option"
  Command :: "string list"
  Env :: "EnvVar list"
  Resources :: ResourceRequirements

record Plugin =
  Plugin_Name :: string
  Plugin_Version :: string

record JenkinsMaster =
  Containers :: "Container list"
  BasePlugins :: "Plugin list"
  Annotations :: "(string \<times> string) list"
  AnnotationsDeprecated :: "(string \<times> string) list"

record Service =
  Service_Type :: string
  Port :: "32 word"
  Service_Other :: "other_fields option"

record Backup =
  ContainerName :: string
  Interval :: "64 word"

record JenkinsAPISettings =
  AuthorizationStrategy :: string
  JenkinsAPISettings_Other :: "other_fields option"

record SeedAgent =
  SeedAgent_Image :: string

record JenkinsSpec =
  Master :: JenkinsMaster
  SeedJobs :: "string list"
  Service :: Service
  SlaveService :: Service
  Backup :: Backup
  JenkinsAPISettings :: JenkinsAPISettings
  SeedAgent :: SeedAgent

record JenkinsStatus =
  ProvisionStartTime :: Time
  BaseConfigurationCompletedTime :: "Time option"
  UserConfigurationCompletedTime :: "Time option"

record Jenkins =
  Name :: string
  Spec :: JenkinsSpec
  Status :: JenkinsStatus

subsection \<open>Errors\<close>

text \<open>
  The error values the controller can see: a status error of the store, the remote
  script failure of the Jenkins client, a plain message (\<^verbatim>\<open>errors.Errorf\<close>
  and every other error), and an error wrapped by \<^verbatim>\<open>errors.WithStack\<close>.
\<close>

record GroovyScriptExecutionFailed =
  ConfigurationType :: string
  Source :: string
  Groovy_Name :: string
  Logs :: string

datatype error =
    StatusError string string
  | GroovyError GroovyScriptExecutionFailed
  | Errorf string
  | WithStack error

text \<open>\<^verbatim>\<open>errors.WithStack\<close> keeps nil and wraps every other error.\<close>

definition errors_WithStack :: "error option \<Rightarrow> error option" where
  "errors_WithStack err = (case err of None \<Rightarrow> None | Some e \<Rightarrow> Some (WithStack e))"

text \<open>The type assertion \<^verbatim>\<open>err.(*jenkinsclient.GroovyScriptExecutionFailed)\<close>
  looks at the dynamic type of the error itself, not at what it wraps.\<close>

fun asGroovyScriptExecutionFailed :: "error \<Rightarrow> GroovyScriptExecutionFailed option" where
  "asGroovyScriptExecutionFailed (GroovyError g) = Some g"
| "asGroovyScriptExecutionFailed _ = None"

text \<open>
  The Kubernetes helpers \<^verbatim>\<open>apierrors.IsNotFound\<close> and
  \<^verbatim>\<open>apierrors.IsConflict\<close> read the reason off the error they are given when
  it is a status error of the API; they do not look inside an error wrapped by
  \<^verbatim>\<open>errors.WithStack\<close>. Line 153 of the controller, which keeps the message
  of a conflict out of the log in the branch of the other errors, is there because
  wrapped conflicts arrive in that branch.
\<close>

fun IsNotFound :: "error \<Rightarrow> bool" where
  "IsNotFound (StatusError reason m) = (reason = ''NotFound'')"
| "IsNotFound _ = False"

fun IsConflict :: "error \<Rightarrow> bool" where
  "IsConflict (StatusError reason m) = (reason = ''Conflict'')"
| "IsConflict _ = False"

subsection \<open>Results, notifications and the trace of a pass\<close>

record Result =
  Requeue :: bool
  RequeueAfter :: Duration

definition Result_zero :: Result where
  "Result_zero = \<lparr>Requeue = False, RequeueAfter = 0\<rparr>"

datatype Phase = PhaseBase | PhaseUser
datatype Level = NotificationLevelWarning | NotificationLevelInfo
datatype ReasonSource = OperatorSource | HumanSource

text \<open>A reason is kept as the constructor call that built it: its source, short
  messages and verbose messages.\<close>

datatype Reason =
    NewReconcileLoopFailed ReasonSource "string list" "string list"
  | NewGroovyScriptExecutionFailed ReasonSource "string list" "string list"
  | NewBaseConfigurationFailed ReasonSource "string list" "string list"
  | NewBaseConfigurationComplete ReasonSource "string list" "string list"
  | NewUserConfigurationFailed ReasonSource "string list" "string list"
  | NewUserConfigurationComplete ReasonSource "string list" "string list"

record Event =
  Event_Jenkins :: Jenkins
  Event_Phase :: Phase
  Event_Level :: Level
  Event_Reason :: Reason

text \<open>Everything a pass does to the outside, in the order it does it: calls of the
  store, calls of the two configuration engines, and events sent on the notification
  channel.\<close>

record NamespacedName =
  Namespace :: string
  Request_Name :: string

datatype action =
    Get NamespacedName
  | Update Jenkins
  | Notify Event
  | BaseValidate
  | BaseReconcile
  | UserValidate
  | UserReconcileCasc
  | UserReconcileOthers

subsection \<open>What the controller takes from other packages\<close>

text \<open>
  Constants and constructors of the packages \<^verbatim>\<open>constants\<close>,
  \<^verbatim>\<open>resources\<close>, \<^verbatim>\<open>plugins\<close> and \<^verbatim>\<open>v1alpha2\<close>,
  which the controller file uses and does not declare. They are parameters; the record
  of a probe holds what the two probe constructors are given.
\<close>

record pkgs =
  JenkinsMasterContainerName :: string
  DefaultJenkinsMasterImage :: string
  DefaultJenkinsAgentImage :: string
  JavaOpsVariableName :: string
  DefaultHTTPPortInt32 :: "32 word"
  DefaultSlavePortInt32 :: "32 word"
  CreateUserAuthorizationStrategy :: string
  NewSimpleProbe :: "string \<Rightarrow> string \<Rightarrow> string \<Rightarrow> 32 word \<Rightarrow> Probe"
  NewProbe :: "string \<Rightarrow> string \<Rightarrow> string \<Rightarrow> 32 word \<Rightarrow> 32 word \<Rightarrow> 32 word \<Rightarrow> Probe"
  NewResourceRequirements :: "string \<Rightarrow> string \<Rightarrow> string \<Rightarrow> string \<Rightarrow> ResourceRequirements"
  GetJenkinsMasterContainerBaseCommand :: "string list"
  plugins_BasePlugins :: "(string \<times> string) list"

text \<open>
  Modelled from the spec: the collaborators of the receiver \<^verbatim>\<open>r\<close>, which
  live in other packages. By the contracts of section 6 of the spec, the store answers
  \<^verbatim>\<open>Get\<close> with a document or an error and \<^verbatim>\<open>Update\<close> with an
  error or nil; the base and user configuration engines answer \<^verbatim>\<open>Validate\<close>
  with messages or an error and their \<^verbatim>\<open>Reconcile\<close> calls with a result
  (the base engine also with a client handle that may be nil) or an error. Each answers
  from the document it is given and does not change it. They are parameters, as are the
  clock, the random source, and the library functions that print an error or a
  duration.
\<close>

record ReconcileJenkins =
  pk :: pkgs
  UseNodePort :: bool
  client_Get :: "NamespacedName \<Rightarrow> error + Jenkins"
  client_Update :: "Jenkins \<Rightarrow> error option"
  base_Validate :: "Jenkins \<Rightarrow> error + string list"
  base_Reconcile :: "Jenkins \<Rightarrow> error + (Result \<times> bool)"
  user_Validate :: "Jenkins \<Rightarrow> error + string list"
  user_ReconcileCasc :: "Jenkins \<Rightarrow> error + Result"
  user_ReconcileOthers :: "Jenkins \<Rightarrow> error + Result"
  metav1_Now :: "nat \<Rightarrow> Time"
  rand_source :: nat
  Error :: "error \<Rightarrow> string"
  Duration_String :: "Duration \<Rightarrow> string"

subsection \<open>Constants of the controller file and of the Kubernetes API\<close>

definition containerProbeURI :: string where "containerProbeURI = ''login''"
definition containerProbePortName :: string where "containerProbePortName = ''http''"
definition PullAlways :: string where "PullAlways = ''Always''"
definition URISchemeHTTP :: string where "URISchemeHTTP = ''HTTP''"
definition ServiceTypeClusterIP :: string where "ServiceTypeClusterIP = ''ClusterIP''"
definition ServiceTypeNodePort :: string where "ServiceTypeNodePort = ''NodePort''"

definition JAVA_OPTS_value :: string where
  "JAVA_OPTS_value = ''-XX:+UnlockExperimentalVMOptions -XX:+UseCGroupMemoryLimitForHeap -XX:MaxRAMFraction=1 -Djenkins.install.runSetupWizard=false -Djava.awt.headless=true''"

text \<open>Zero values, as \<^verbatim>\<open>v1alpha2.Container{}\<close>, \<^verbatim>\<open>v1alpha2.Service{}\<close>
  and the like build them.\<close>

definition ResourceRequirements_zero :: ResourceRequirements where
  "ResourceRequirements_zero = \<lparr>Limits = None, Requests = None\<rparr>"

definition Container_zero :: Container where
  "Container_zero = \<lparr>Container_Name = [], Image = [], ImagePullPolicy = [],
     ReadinessProbe = None, LivenessProbe = None, Command = [], Env = [],
     Resources = ResourceRequirements_zero\<rparr>"

definition Service_zero :: Service where
  "Service_zero = \<lparr>Service_Type = [], Port = 0, Service_Other = None\<rparr>"

definition JenkinsAPISettings_zero :: JenkinsAPISettings where
  "JenkinsAPISettings_zero = \<lparr>AuthorizationStrategy = [], JenkinsAPISettings_Other = None\<rparr>"

section \<open>The defaulting engine\<close>

fun isJavaOpsVariableNotSet_loop :: "pkgs \<Rightarrow> EnvVar list \<Rightarrow> bool" where
  "isJavaOpsVariableNotSet_loop p [] = True"
| "isJavaOpsVariableNotSet_loop p (env # envs) =
     (if EnvVar_Name env = JavaOpsVariableName p then False
      else isJavaOpsVariableNotSet_loop p envs)"

definition isJavaOpsVariableNotSet :: "pkgs \<Rightarrow> Container \<Rightarrow> bool" where
  "isJavaOpsVariableNotSet p container = isJavaOpsVariableNotSet_loop p (Env container)"

definition isResourceRequirementsNotSet :: "ResourceRequirements \<Rightarrow> bool" where
  "isResourceRequirementsNotSet requirements = (requirements = ResourceRequirements_zero)"

definition basePlugins :: "pkgs \<Rightarrow> Plugin list" where
  "basePlugins p =
     map (\<lambda>(n, v). \<lparr>Plugin_Name = n, Plugin_Version = v\<rparr>) (plugins_BasePlugins p)"

text \<open>\<^verbatim>\<open>setDefaultsForContainer\<close> works on the container at
  \<^verbatim>\<open>containerIndex\<close>, which its only caller takes from a range over the list;
  the model is given that container and returns it updated.\<close>

definition setDefaultsForContainer :: "pkgs \<Rightarrow> Container \<Rightarrow> bool \<times> Container" where
  "setDefaultsForContainer p container =
    (let c1 = (length (ImagePullPolicy container) = 0);
         changed = c1;
         container = (if c1 then container\<lparr>ImagePullPolicy := PullAlways\<rparr> else container);
         c2 = isResourceRequirementsNotSet (Resources container);
         changed = (if c2 then True else changed);
         container = (if c2
           then container\<lparr>Resources := NewResourceRequirements p ''50m'' ''50Mi'' ''100m'' ''100Mi''\<rparr>
           else container)
     in (changed, container))"

text \<open>The loop of \<^verbatim>\<open>setDefaults\<close> over the containers after the first.\<close>

fun setDefaultsForContainers :: "pkgs \<Rightarrow> bool \<Rightarrow> Container list \<Rightarrow> bool \<times> Container list" where
  "setDefaultsForContainers p changed [] = (changed, [])"
| "setDefaultsForContainers p changed (container # rest) =
     (let (ch, container) = setDefaultsForContainer p container;
          changed = (if ch then True else changed);
          (changed, rest) = setDefaultsForContainers p changed rest
      in (changed, container # rest))"

definition firstContainerError :: "pkgs \<Rightarrow> error" where
  "firstContainerError p = Errorf
     (''first container in spec.master.containers must be Jenkins container with name ''
      @ [CHR 0x27] @ JenkinsMasterContainerName p @ [CHR 0x27] @ '', please correct CR'')"

text \<open>
  The local variables of \<^verbatim>\<open>setDefaults\<close>: the flag \<^verbatim>\<open>changed\<close>, the
  copy \<^verbatim>\<open>jenkinsContainer\<close> of the first container, and the document behind
  the pointer \<^verbatim>\<open>jenkins\<close>. The body of the function is a sequence of guarded
  assignments to them; each definition below is one stretch of it, in source order.
\<close>

record locals =
  changed :: bool
  jenkinsContainer :: Container
  doc :: Jenkins

text \<open>Image and image pull policy of the Jenkins container.\<close>

definition setDefaults_image :: "pkgs \<Rightarrow> locals \<Rightarrow> locals" where
  "setDefaults_image p s =
    (let s = (if length (Image (jenkinsContainer s)) = 0
              then s\<lparr>changed := True,
                     jenkinsContainer := (jenkinsContainer s)
                       \<lparr>Image := DefaultJenkinsMasterImage p, ImagePullPolicy := PullAlways\<rparr>\<rparr>
              else s);
         s = (if length (ImagePullPolicy (jenkinsContainer s)) = 0
              then s\<lparr>changed := True,
                     jenkinsContainer := (jenkinsContainer s)\<lparr>ImagePullPolicy := PullAlways\<rparr>\<rparr>
              else s)
     in s)"

text \<open>Readiness and liveness probes.\<close>

definition setDefaults_probes :: "pkgs \<Rightarrow> locals \<Rightarrow> locals" where
  "setDefaults_probes p s =
    (let s = (if ReadinessProbe (jenkinsContainer s) = None
              then s\<lparr>changed := True,
                     jenkinsContainer := (jenkinsContainer s)\<lparr>ReadinessProbe :=
                       Some (NewSimpleProbe p containerProbeURI containerProbePortName URISchemeHTTP 30)\<rparr>\<rparr>
              else s);
         s = (if LivenessProbe (jenkinsContainer s) = None
              then s\<lparr>changed := True,
                     jenkinsContainer := (jenkinsContainer s)\<lparr>LivenessProbe :=
                       Some (NewProbe p containerProbeURI containerProbePortName URISchemeHTTP 80 5 12)\<rparr>\<rparr>
              else s)
     in s)"

text \<open>Command and the \<^verbatim>\<open>JAVA_OPTS\<close> environment variable.\<close>

definition setDefaults_command :: "pkgs \<Rightarrow> locals \<Rightarrow> locals" where
  "setDefaults_command p s =
    (let s = (if length (Command (jenkinsContainer s)) = 0
              then s\<lparr>changed := True,
                     jenkinsContainer := (jenkinsContainer s)
                       \<lparr>Command := GetJenkinsMasterContainerBaseCommand p\<rparr>\<rparr>
              else s);
         s = (if isJavaOpsVariableNotSet p (jenkinsContainer s)
              then s\<lparr>changed := True,
                     jenkinsContainer := (jenkinsContainer s)\<lparr>Env := Env (jenkinsContainer s) @
                       [\<lparr>EnvVar_Name = JavaOpsVariableName p, EnvVar_Value = JAVA_OPTS_value\<rparr>]\<rparr>\<rparr>
              else s)
     in s)"

text \<open>Base plugins of the document, resource requirements of the Jenkins container.\<close>

definition setDefaults_plugins :: "pkgs \<Rightarrow> locals \<Rightarrow> locals" where
  "setDefaults_plugins p s =
    (let s = (if length (BasePlugins (Master (Spec (doc s)))) = 0
              then s\<lparr>changed := True,
                     doc := Spec_update (Master_update (BasePlugins_update (\<lambda>_. basePlugins p))) (doc s)\<rparr>
              else s);
         s = (if isResourceRequirementsNotSet (Resources (jenkinsContainer s))
              then s\<lparr>changed := True,
                     jenkinsContainer := (jenkinsContainer s)\<lparr>Resources :=
                       NewResourceRequirements p ''1'' ''500Mi'' ''1500m'' ''3Gi''\<rparr>\<rparr>
              else s)
     in s)"

text \<open>The master service and the slave service.\<close>

definition setDefaults_services :: "ReconcileJenkins \<Rightarrow> locals \<Rightarrow> locals" where
  "setDefaults_services r s =
    (let s = (if Service (Spec (doc s)) = Service_zero
              then (let serviceType = (if UseNodePort r then ServiceTypeNodePort
                                       else ServiceTypeClusterIP)
                    in s\<lparr>changed := True,
                         doc := Spec_update (Service_update (\<lambda>_. Service_zero
                           \<lparr>Service_Type := serviceType, Port := DefaultHTTPPortInt32 (pk r)\<rparr>)) (doc s)\<rparr>)
              else s);
         s = (if SlaveService (Spec (doc s)) = Service_zero
              then s\<lparr>changed := True,
                     doc := Spec_update (SlaveService_update (\<lambda>_. Service_zero
                       \<lparr>Service_Type := ServiceTypeClusterIP, Port := DefaultSlavePortInt32 (pk r)\<rparr>)) (doc s)\<rparr>
              else s)
     in s)"

text \<open>The containers after the first, defaulted in place, and the backup interval.\<close>

definition setDefaults_others :: "pkgs \<Rightarrow> locals \<Rightarrow> locals" where
  "setDefaults_others p s =
    (let s = (if length (Containers (Master (Spec (doc s)))) > 1
              then (let (ch, rest) =
                      setDefaultsForContainers p (changed s) (drop 1 (Containers (Master (Spec (doc s)))))
                    in s\<lparr>changed := ch,
                         doc := Spec_update (Master_update (Containers_update
                           (\<lambda>cs. take 1 cs @ rest))) (doc s)\<rparr>)
              else s);
         s = (if length (ContainerName (Backup (Spec (doc s)))) > 0 \<and>
                 Interval (Backup (Spec (doc s))) = 0
              then s\<lparr>changed := True,
                     doc := Spec_update (Backup_update (Interval_update (\<lambda>_. 30))) (doc s)\<rparr>
              else s)
     in s)"

text \<open>The defaulted Jenkins container goes back to the head of the container list.\<close>

definition setDefaults_store :: "locals \<Rightarrow> locals" where
  "setDefaults_store s =
    (if length (Containers (Master (Spec (doc s)))) = 0 \<or>
        length (Containers (Master (Spec (doc s)))) = 1
     then s\<lparr>doc := Spec_update (Master_update (Containers_update
            (\<lambda>_. [jenkinsContainer s]))) (doc s)\<rparr>
     else (let noJenkinsContainers = drop 1 (Containers (Master (Spec (doc s))));
               containers = [jenkinsContainer s];
               containers = containers @ noJenkinsContainers
           in s\<lparr>doc := Spec_update (Master_update (Containers_update (\<lambda>_. containers))) (doc s)\<rparr>))"

text \<open>API settings, authorization strategy and the seed agent image.\<close>

definition setDefaults_settings :: "pkgs \<Rightarrow> locals \<Rightarrow> locals" where
  "setDefaults_settings p s =
    (let s = (if JenkinsAPISettings (Spec (doc s)) = JenkinsAPISettings_zero
              then s\<lparr>changed := True,
                     doc := Spec_update (JenkinsAPISettings_update (\<lambda>_. JenkinsAPISettings_zero
                       \<lparr>AuthorizationStrategy := CreateUserAuthorizationStrategy p\<rparr>)) (doc s)\<rparr>
              else s);
         s = (if AuthorizationStrategy (JenkinsAPISettings (Spec (doc s))) = []
              then s\<lparr>changed := True,
                     doc := Spec_update (JenkinsAPISettings_update (AuthorizationStrategy_update
                       (\<lambda>_. CreateUserAuthorizationStrategy p))) (doc s)\<rparr>
              else s);
         s = (if length (SeedJobs (Spec (doc s))) > 0 \<and>
                 length (SeedAgent_Image (SeedAgent (Spec (doc s)))) = 0
              then s\<lparr>changed := True,
                     doc := Spec_update (SeedAgent_update (SeedAgent_Image_update
                       (\<lambda>_. DefaultJenkinsAgentImage p))) (doc s)\<rparr>
              else s)
     in s)"

text \<open>
  \<^verbatim>\<open>setDefaults\<close> returns \<^verbatim>\<open>(requeue, err)\<close>; the document it was
  given by pointer and the actions it performed are returned beside them.
\<close>

definition setDefaults ::
  "ReconcileJenkins \<Rightarrow> Jenkins \<Rightarrow> (bool \<times> error option) \<times> Jenkins \<times> action list" where
  "setDefaults r jenkins =
    (let p = pk r; containers = Containers (Master (Spec jenkins)) in
     if length containers \<noteq> 0 \<and> Container_Name (containers ! 0) \<noteq> JenkinsMasterContainerName p
     then ((False, Some (firstContainerError p)), jenkins, [])
     else
      (let s = \<lparr>changed = (length containers = 0),
                jenkinsContainer = (if length containers = 0
                  then Container_zero\<lparr>Container_Name := JenkinsMasterContainerName p\<rparr>
                  else containers ! 0),
                doc = jenkins\<rparr>;
           s = setDefaults_image p s;
           s = setDefaults_probes p s;
           s = setDefaults_command p s;
           s = setDefaults_plugins p s;
           s = setDefaults_services r s;
           s = setDefaults_others p s;
           s = setDefaults_store s;
           s = setDefaults_settings p s
       in if changed s
          then ((changed s, errors_WithStack (client_Update r (doc s))), doc s, [Update (doc s)])
          else ((changed s, None), doc s, [])))"

section \<open>The migration engine\<close>

definition handleDeprecatedData ::
  "ReconcileJenkins \<Rightarrow> Jenkins \<Rightarrow> (bool \<times> error option) \<times> Jenkins \<times> action list" where
  "handleDeprecatedData r jenkins =
    (let changed = False;
         c = (length (AnnotationsDeprecated (Master (Spec jenkins))) > 0);
         changed = (if c then True else changed);
         jenkins = (if c
           then Spec_update (Master_update (\<lambda>m. m\<lparr>Annotations := AnnotationsDeprecated m,
                  AnnotationsDeprecated := []\<rparr>)) jenkins
           else jenkins)
     in if changed
        then ((changed, errors_WithStack (client_Update r jenkins)), jenkins, [Update jenkins])
        else ((changed, None), jenkins, []))"

section \<open>One pass of the control loop\<close>

text \<open>
  \<^verbatim>\<open>reconcile\<close> returns \<^verbatim>\<open>(result, jenkins, err)\<close>, the second being a
  pointer that is nil on two of the paths; the actions of the pass are returned beside
  them. Every early return of the source is a leaf of the definition. The clock is read
  at two places; \<open>metav1_Now r 0\<close> is the reading of the base phase and
  \<open>metav1_Now r 1\<close> that of the user phase.
\<close>

definition baseCompleteMessage :: "ReconcileJenkins \<Rightarrow> Jenkins \<Rightarrow> Time \<Rightarrow> string" where
  "baseCompleteMessage r jenkins now = ''Base configuration phase is complete, took '' @
     Duration_String r (now - ProvisionStartTime (Status jenkins))"

definition userCompleteMessage :: "ReconcileJenkins \<Rightarrow> Jenkins \<Rightarrow> Time \<Rightarrow> string" where
  "userCompleteMessage r jenkins now = ''User configuration phase is complete, took '' @
     Duration_String r (now - ProvisionStartTime (Status jenkins))"

definition baseValidationMessage :: string where
  "baseValidationMessage = ''Validation of base configuration failed, please correct Jenkins CR.''"

definition userValidationMessage :: string where
  "userValidationMessage = ''Validation of user configuration failed, please correct Jenkins CR''"

text \<open>Seed jobs, declarative configuration and backups: the source from the creation of
  the user configuration to the final return.\<close>

definition reconcile_user ::
  "ReconcileJenkins \<Rightarrow> Jenkins \<Rightarrow> (Result \<times> Jenkins option \<times> error option) \<times> action list" where
  "reconcile_user r jenkins =
    (case user_Validate r jenkins of
       Inl err \<Rightarrow> ((Result_zero, Some jenkins, Some err), [UserValidate])
     | Inr messages \<Rightarrow>
       if length messages > 0 then
         (let message = userValidationMessage
          in ((Result_zero, Some jenkins, None),
              [UserValidate,
               Notify \<lparr>Event_Jenkins = jenkins, Event_Phase = PhaseUser,
                 Event_Level = NotificationLevelWarning,
                 Event_Reason = NewUserConfigurationFailed HumanSource [message]
                   ([message] @ messages)\<rparr>]))
       else
        (case user_ReconcileCasc r jenkins of
           Inl err \<Rightarrow> ((Result_zero, Some jenkins, Some err), [UserValidate, UserReconcileCasc])
         | Inr result \<Rightarrow>
           if Requeue result
           then ((result, Some jenkins, None), [UserValidate, UserReconcileCasc])
           else
            (case user_ReconcileOthers r jenkins of
               Inl err \<Rightarrow>
                 ((Result_zero, Some jenkins, Some err),
                  [UserValidate, UserReconcileCasc, UserReconcileOthers])
             | Inr result \<Rightarrow>
               if Requeue result
               then ((result, Some jenkins, None),
                     [UserValidate, UserReconcileCasc, UserReconcileOthers])
               else if UserConfigurationCompletedTime (Status jenkins) = None then
                 (let now = metav1_Now r 1;
                      jenkins = Status_update (UserConfigurationCompletedTime_update (\<lambda>_. Some now)) jenkins
                  in case client_Update r jenkins of
                       Some err \<Rightarrow>
                         ((Result_zero, Some jenkins, errors_WithStack (Some err)),
                          [UserValidate, UserReconcileCasc, UserReconcileOthers, Update jenkins])
                     | None \<Rightarrow>
                       (let message = userCompleteMessage r jenkins now
                        in ((Result_zero, Some jenkins, None),
                            [UserValidate, UserReconcileCasc, UserReconcileOthers, Update jenkins,
                             Notify \<lparr>Event_Jenkins = jenkins, Event_Phase = PhaseUser,
                               Event_Level = NotificationLevelInfo,
                               Event_Reason = NewUserConfigurationComplete OperatorSource [message] []\<rparr>])))
               else ((Result_zero, Some jenkins, None),
                     [UserValidate, UserReconcileCasc, UserReconcileOthers]))))"

text \<open>The base configuration: the source from the creation of the configuration to the
  completion notice of the base phase, followed by the user configuration.\<close>

definition reconcile_base ::
  "ReconcileJenkins \<Rightarrow> Jenkins \<Rightarrow> (Result \<times> Jenkins option \<times> error option) \<times> action list" where
  "reconcile_base r jenkins =
    (case base_Validate r jenkins of
       Inl err \<Rightarrow> ((Result_zero, Some jenkins, Some err), [BaseValidate])
     | Inr baseMessages \<Rightarrow>
       if length baseMessages > 0 then
         (let message = baseValidationMessage
          in ((Result_zero, Some jenkins, None),
              [BaseValidate,
               Notify \<lparr>Event_Jenkins = jenkins, Event_Phase = PhaseBase,
                 Event_Level = NotificationLevelWarning,
                 Event_Reason = NewBaseConfigurationFailed HumanSource [message]
                   ([message] @ baseMessages)\<rparr>]))
       else
        (case base_Reconcile r jenkins of
           Inl err \<Rightarrow> ((Result_zero, Some jenkins, Some err), [BaseValidate, BaseReconcile])
         | Inr (result, jenkinsClient) \<Rightarrow>
           if Requeue result
           then ((result, Some jenkins, None), [BaseValidate, BaseReconcile])
           else if \<not> jenkinsClient
           then ((Result_zero\<lparr>Requeue := False\<rparr>, Some jenkins, None), [BaseValidate, BaseReconcile])
           else if BaseConfigurationCompletedTime (Status jenkins) = None then
             (let now = metav1_Now r 0;
                  jenkins = Status_update (BaseConfigurationCompletedTime_update (\<lambda>_. Some now)) jenkins
              in case client_Update r jenkins of
                   Some err \<Rightarrow>
                     ((Result_zero, Some jenkins, errors_WithStack (Some err)),
                      [BaseValidate, BaseReconcile, Update jenkins])
                 | None \<Rightarrow>
                   (let message = baseCompleteMessage r jenkins now
                    in case reconcile_user r jenkins of (rest, tr) \<Rightarrow>
                         (rest,
                          [BaseValidate, BaseReconcile, Update jenkins,
                           Notify \<lparr>Event_Jenkins = jenkins, Event_Phase = PhaseBase,
                             Event_Level = NotificationLevelInfo,
                             Event_Reason = NewBaseConfigurationComplete OperatorSource [message] []\<rparr>]
                          @ tr)))
           else (case reconcile_user r jenkins of (rest, tr) \<Rightarrow>
                   (rest, [BaseValidate, BaseReconcile] @ tr))))"

definition reconcile ::
  "ReconcileJenkins \<Rightarrow> NamespacedName \<Rightarrow> (Result \<times> Jenkins option \<times> error option) \<times> action list" where
  "reconcile r request =
    (case client_Get r request of
       Inl err \<Rightarrow>
         if IsNotFound err then ((Result_zero, None, None), [Get request])
         else ((Result_zero, None, errors_WithStack (Some err)), [Get request])
     | Inr jenkins \<Rightarrow>
       (case setDefaults r jenkins of ((requeue, err), jenkins, tr1) \<Rightarrow>
         if err \<noteq> None then ((Result_zero, Some jenkins, err), [Get request] @ tr1)
         else if requeue
         then ((Result_zero\<lparr>Requeue := True\<rparr>, Some jenkins, None), [Get request] @ tr1)
         else
          (case handleDeprecatedData r jenkins of ((requeue, err), jenkins, tr2) \<Rightarrow>
            if err \<noteq> None then ((Result_zero, Some jenkins, err), [Get request] @ tr1 @ tr2)
            else if requeue
            then ((Result_zero\<lparr>Requeue := True\<rparr>, Some jenkins, None), [Get request] @ tr1 @ tr2)
            else (case reconcile_base r jenkins of (rest, tr3) \<Rightarrow>
                    (rest, [Get request] @ tr1 @ tr2 @ tr3)))))"

section \<open>The top-level wrapper and the failure map\<close>

record reconcileError =
  err :: error
  counter :: "64 word"

text \<open>The process-wide state: the map \<^verbatim>\<open>reconcileErrors\<close>, keyed by the name of
  the request, and the trace of everything done so far.\<close>

record state =
  reconcileErrors :: "string \<rightharpoonup> reconcileError"
  trace :: "action list"

text \<open>A call of \<^verbatim>\<open>Reconcile\<close> returns, or panics on a nil pointer at the source
  line given.\<close>

datatype outcome = Return Result "error option" | Panic nat

definition reconcileFailLimit :: "64 word" where
  "reconcileFailLimit = 10"

definition Millisecond :: Duration where
  "Millisecond = 1000000"

text \<open>\<^verbatim>\<open>rand.Intn(n)\<close> for a positive \<open>n\<close>: the sample the generator accepts,
  reduced modulo \<open>n\<close>.\<close>

definition rand_Intn :: "ReconcileJenkins \<Rightarrow> nat \<Rightarrow> nat" where
  "rand_Intn r n = rand_source r mod n"

definition loopFailedMessage :: "ReconcileJenkins \<Rightarrow> error \<Rightarrow> string" where
  "loopFailedMessage r e =
     ''Reconcile loop failed 10 times with the same error, giving up: '' @ Error r e"

definition loopFailedEvent :: "ReconcileJenkins \<Rightarrow> Jenkins \<Rightarrow> error \<Rightarrow> Event" where
  "loopFailedEvent r jenkins e =
     \<lparr>Event_Jenkins = jenkins, Event_Phase = PhaseBase, Event_Level = NotificationLevelWarning,
      Event_Reason = NewReconcileLoopFailed OperatorSource [loopFailedMessage r e] []\<rparr>"

definition groovyFailedMessage :: "GroovyScriptExecutionFailed \<Rightarrow> string" where
  "groovyFailedMessage groovyErr =
     ConfigurationType groovyErr @ '' Source '' @ [CHR 0x27] @ Source groovyErr @ [CHR 0x27] @
     '' Name '' @ [CHR 0x27] @ Groovy_Name groovyErr @ [CHR 0x27] @
     '' groovy script execution failed''"

definition groovyFailedEvent :: "Jenkins \<Rightarrow> GroovyScriptExecutionFailed \<Rightarrow> Event" where
  "groovyFailedEvent jenkins groovyErr =
     \<lparr>Event_Jenkins = jenkins, Event_Phase = PhaseBase, Event_Level = NotificationLevelWarning,
      Event_Reason = NewGroovyScriptExecutionFailed OperatorSource
        [groovyFailedMessage groovyErr]
        [groovyFailedMessage groovyErr @ '', logs: '' @ Logs groovyErr]\<rparr>"

text \<open>The update of the failure map for one error of one identity.\<close>

definition recordError :: "ReconcileJenkins \<Rightarrow> reconcileError option \<Rightarrow> error \<Rightarrow> reconcileError" where
  "recordError r entry e =
    (case entry of
       Some lastErrors \<Rightarrow>
         if Error r e = Error r (err lastErrors)
         then lastErrors\<lparr>counter := counter lastErrors + 1\<rparr>
         else lastErrors\<lparr>counter := 1, err := e\<rparr>
     | None \<Rightarrow> \<lparr>err = e, counter = 1\<rparr>)"

text \<open>What \<^verbatim>\<open>Reconcile\<close> does with the three values of \<^verbatim>\<open>reconcile\<close>.\<close>

definition Reconcile_classify ::
  "ReconcileJenkins \<Rightarrow> NamespacedName \<Rightarrow> Result \<times> Jenkins option \<times> error option \<Rightarrow> state
     \<Rightarrow> outcome \<times> state" where
  "Reconcile_classify r request inner st =
    (case inner of (result, jenkins, error) \<Rightarrow>
      (case error of
         Some e \<Rightarrow>
           if IsConflict e then (Return (Result_zero\<lparr>Requeue := True\<rparr>) None, st)
           else
            (let lastErrors = recordError r (reconcileErrors st (Request_Name request)) e;
                 st = st\<lparr>reconcileErrors := (reconcileErrors st)(Request_Name request \<mapsto> lastErrors)\<rparr>
             in if counter lastErrors \<ge> reconcileFailLimit then
                  (case jenkins of
                     None \<Rightarrow> (Panic 140, st)
                   | Some j \<Rightarrow>
                       (Return (Result_zero\<lparr>Requeue := False\<rparr>) None,
                        st\<lparr>trace := trace st @ [Notify (loopFailedEvent r j e)]\<rparr>))
                else
                  (case asGroovyScriptExecutionFailed e of
                     Some groovyErr \<Rightarrow>
                       (case jenkins of
                          None \<Rightarrow> (Panic 159, st)
                        | Some j \<Rightarrow>
                            (Return (Result_zero\<lparr>Requeue := False\<rparr>) None,
                             st\<lparr>trace := trace st @ [Notify (groovyFailedEvent j groovyErr)]\<rparr>))
                   | None \<Rightarrow> (Return (Result_zero\<lparr>Requeue := True\<rparr>) None, st)))
       | None \<Rightarrow>
           (let result = (if Requeue result \<and> RequeueAfter result = 0
                          then result\<lparr>RequeueAfter := int (rand_Intn r 10) * Millisecond\<rparr>
                          else result)
            in (Return result None, st))))"

definition Reconcile :: "ReconcileJenkins \<Rightarrow> NamespacedName \<Rightarrow> state \<Rightarrow> outcome \<times> state" where
  "Reconcile r request st =
    (case reconcile r request of (inner, tr) \<Rightarrow>
       Reconcile_classify r request inner (st\<lparr>trace := trace st @ tr\<rparr>))"

text \<open>Consecutive invocations in one process. A panic ends the run.\<close>

fun Reconcile_times :: "ReconcileJenkins \<Rightarrow> NamespacedName \<Rightarrow> nat \<Rightarrow> state \<Rightarrow> outcome list \<times> state" where
  "Reconcile_times r request 0 st = ([], st)"
| "Reconcile_times r request (Suc n) st =
     (case Reconcile r request st of
        (Panic l, st) \<Rightarrow> ([Panic l], st)
      | (out, st) \<Rightarrow>
          (case Reconcile_times r request n st of (outs, st) \<Rightarrow> (out # outs, st)))"



section \<open>Notions used in the statements\<close>

text \<open>The defaults taken from other packages are usable: none of them is the zero
  value that the defaulting engine takes for "not set".\<close>

definition pkgs_ok :: "pkgs \<Rightarrow> bool" where
  "pkgs_ok p =
    (DefaultJenkinsMasterImage p \<noteq> [] \<and>
     GetJenkinsMasterContainerBaseCommand p \<noteq> [] \<and>
     plugins_BasePlugins p \<noteq> [] \<and>
     \<not> isResourceRequirementsNotSet (NewResourceRequirements p ''1'' ''500Mi'' ''1500m'' ''3Gi'') \<and>
     \<not> isResourceRequirementsNotSet (NewResourceRequirements p ''50m'' ''50Mi'' ''100m'' ''100Mi'') \<and>
     CreateUserAuthorizationStrategy p \<noteq> [] \<and>
     DefaultJenkinsAgentImage p \<noteq> [])"

text \<open>A document on which no guard of \<^verbatim>\<open>setDefaults\<close> fires.\<close>

definition containerDefaulted :: "Container \<Rightarrow> bool" where
  "containerDefaulted c =
    (ImagePullPolicy c \<noteq> [] \<and> \<not> isResourceRequirementsNotSet (Resources c))"

definition jenkinsContainerDefaulted :: "pkgs \<Rightarrow> Container \<Rightarrow> bool" where
  "jenkinsContainerDefaulted p c =
    (Container_Name c = JenkinsMasterContainerName p \<and>
     Image c \<noteq> [] \<and> ImagePullPolicy c \<noteq> [] \<and>
     ReadinessProbe c \<noteq> None \<and> LivenessProbe c \<noteq> None \<and>
     Command c \<noteq> [] \<and> \<not> isJavaOpsVariableNotSet p c \<and>
     \<not> isResourceRequirementsNotSet (Resources c))"

definition specDefaulted :: "Jenkins \<Rightarrow> bool" where
  "specDefaulted j =
    (BasePlugins (Master (Spec j)) \<noteq> [] \<and>
     Service (Spec j) \<noteq> Service_zero \<and> SlaveService (Spec j) \<noteq> Service_zero \<and>
     \<not> (ContainerName (Backup (Spec j)) \<noteq> [] \<and> Interval (Backup (Spec j)) = 0) \<and>
     AuthorizationStrategy (JenkinsAPISettings (Spec j)) \<noteq> [] \<and>
     \<not> (SeedJobs (Spec j) \<noteq> [] \<and> SeedAgent_Image (SeedAgent (Spec j)) = []))"

definition defaulted :: "pkgs \<Rightarrow> Jenkins \<Rightarrow> bool" where
  "defaulted p j =
    (case Containers (Master (Spec j)) of
       [] \<Rightarrow> False
     | c # cs \<Rightarrow> jenkinsContainerDefaulted p c \<and> list_all containerDefaulted cs \<and> specDefaulted j)"

text \<open>What the migration engine makes of a document with deprecated annotations.\<close>

definition migrated :: "Jenkins \<Rightarrow> Jenkins" where
  "migrated j = Spec_update (Master_update
     (\<lambda>m. m\<lparr>Annotations := AnnotationsDeprecated m, AnnotationsDeprecated := []\<rparr>)) j"

text \<open>Reading a trace: the documents passed to \<^verbatim>\<open>Update\<close>, the events sent, and
  the events of one kind.\<close>

fun updates :: "action list \<Rightarrow> Jenkins list" where
  "updates [] = []"
| "updates (Update j # as) = j # updates as"
| "updates (_ # as) = updates as"

fun notices :: "action list \<Rightarrow> Event list" where
  "notices [] = []"
| "notices (Notify e # as) = e # notices as"
| "notices (_ # as) = notices as"

fun isBaseComplete :: "Event \<Rightarrow> bool" where
  "isBaseComplete e = (case Event_Reason e of NewBaseConfigurationComplete _ _ _ \<Rightarrow> True | _ \<Rightarrow> False)"

fun isUserComplete :: "Event \<Rightarrow> bool" where
  "isUserComplete e = (case Event_Reason e of NewUserConfigurationComplete _ _ _ \<Rightarrow> True | _ \<Rightarrow> False)"


text \<open>A pass kept the completion time \<open>t\<close> of a phase: every document it sent to the store
  or returned carries \<open>t\<close>, and it sent no completion notice of that phase.\<close>

definition baseStampKept :: "Time \<Rightarrow> (Result \<times> Jenkins option \<times> error option) \<times> action list \<Rightarrow> bool" where
  "baseStampKept t x = (case x of ((result, jo, eo), tr) \<Rightarrow>
     (\<forall>j \<in> set (updates tr) \<union> set_option jo. BaseConfigurationCompletedTime (Status j) = Some t) \<and>
     \<not> list_ex isBaseComplete (notices tr))"

definition userStampKept :: "Time \<Rightarrow> (Result \<times> Jenkins option \<times> error option) \<times> action list \<Rightarrow> bool" where
  "userStampKept t x = (case x of ((result, jo, eo), tr) \<Rightarrow>
     (\<forall>j \<in> set (updates tr) \<union> set_option jo. UserConfigurationCompletedTime (Status j) = Some t) \<and>
     \<not> list_ex isUserComplete (notices tr))"






definition requeueNow :: outcome where
  "requeueNow = Return \<lparr>Requeue = True, RequeueAfter = 0\<rparr> None"

definition giveUp :: outcome where
  "giveUp = Return \<lparr>Requeue = False, RequeueAfter = 0\<rparr> None"



section \<open>Example values\<close>

definition pkgs0 :: pkgs where
  "pkgs0 =
    \<lparr>JenkinsMasterContainerName = ''jenkins-master'',
     DefaultJenkinsMasterImage = ''jenkins/jenkins:lts'',
     DefaultJenkinsAgentImage = ''jenkins/jnlp-slave:alpine'',
     JavaOpsVariableName = ''JAVA_OPTS'',
     DefaultHTTPPortInt32 = 8080,
     DefaultSlavePortInt32 = 50000,
     CreateUserAuthorizationStrategy = ''createUser'',
     NewSimpleProbe = (\<lambda>uri port scheme delay.
       \<lparr>Probe_Path = uri, Probe_Port = port, Probe_Scheme = scheme,
        InitialDelaySeconds = delay, TimeoutSeconds = 1, FailureThreshold = 3\<rparr>),
     NewProbe = (\<lambda>uri port scheme delay timeout failure.
       \<lparr>Probe_Path = uri, Probe_Port = port, Probe_Scheme = scheme,
        InitialDelaySeconds = delay, TimeoutSeconds = timeout, FailureThreshold = failure\<rparr>),
     NewResourceRequirements = (\<lambda>requestCPU requestMemory limitCPU limitMemory.
       \<lparr>Limits = Some [(''cpu'', limitCPU), (''memory'', limitMemory)],
        Requests = Some [(''cpu'', requestCPU), (''memory'', requestMemory)]\<rparr>),
     GetJenkinsMasterContainerBaseCommand = [''bash'', ''-c'', ''/var/jenkins/scripts/init.sh''],
     plugins_BasePlugins = [(''kubernetes'', ''1.18.3''), (''git'', ''3.12.0'')]\<rparr>"

text \<open>A message function: a wrapped error prints as the error it wraps.\<close>

fun message :: "error \<Rightarrow> string" where
  "message (StatusError re m) = m"
| "message (GroovyError g) = ''script execution failed: '' @ Groovy_Name g"
| "message (Errorf m) = m"
| "message (WithStack e) = message e"

definition jenkins0 :: Jenkins where
  "jenkins0 =
    \<lparr>Name = ''example'',
     Spec = \<lparr>Master = \<lparr>Containers = [], BasePlugins = [], Annotations = [],
                       AnnotationsDeprecated = []\<rparr>,
             SeedJobs = [], Service = Service_zero, SlaveService = Service_zero,
             Backup = \<lparr>ContainerName = [], Interval = 0\<rparr>,
             JenkinsAPISettings = JenkinsAPISettings_zero,
             SeedAgent = \<lparr>SeedAgent_Image = []\<rparr>\<rparr>,
     Status = \<lparr>ProvisionStartTime = 0, BaseConfigurationCompletedTime = None,
               UserConfigurationCompletedTime = None\<rparr>\<rparr>"

definition r0 :: ReconcileJenkins where
  "r0 =
    \<lparr>pk = pkgs0, UseNodePort = False,
     client_Get = (\<lambda>_. Inr jenkins0),
     client_Update = (\<lambda>_. None),
     base_Validate = (\<lambda>_. Inr []),
     base_Reconcile = (\<lambda>_. Inr (Result_zero, True)),
     user_Validate = (\<lambda>_. Inr []),
     user_ReconcileCasc = (\<lambda>_. Inr Result_zero),
     user_ReconcileOthers = (\<lambda>_. Inr Result_zero),
     metav1_Now = (\<lambda>n. 1000 + int n),
     rand_source = 0,
     Error = message,
     Duration_String = (\<lambda>d. ''1s'')\<rparr>"

definition req0 :: NamespacedName where
  "req0 = \<lparr>Namespace = ''default'', Request_Name = ''x''\<rparr>"

definition st0 :: state where
  "st0 = \<lparr>reconcileErrors = Map.empty, trace = []\<rparr>"

text \<open>A document with an empty specification and deprecated annotations: it needs both
  defaulting and migration.\<close>

definition jenkins_deprecated :: Jenkins where
  "jenkins_deprecated = Spec_update (Master_update
     (AnnotationsDeprecated_update (\<lambda>_. [(''team'', ''ci'')]))) jenkins0"

text \<open>A document whose first container is not the Jenkins container.\<close>

definition jenkins_misnamed :: Jenkins where
  "jenkins_misnamed = Spec_update (Master_update
     (Containers_update (\<lambda>_. [Container_zero\<lparr>Container_Name := ''sidecar''\<rparr>]))) jenkins0"

text \<open>The example document after one pass of the defaulting engine.\<close>

definition jenkins_defaulted :: Jenkins where
  "jenkins_defaulted = fst (snd (setDefaults r0 jenkins0))"

definition internalError :: error where
  "internalError = StatusError ''InternalError'' ''etcdserver: request timed out''"

definition groovy0 :: GroovyScriptExecutionFailed where
  "groovy0 = \<lparr>ConfigurationType = ''user'', Source = ''configmap'', Groovy_Name = ''init.groovy'',
     Logs = ''MissingPropertyException''\<rparr>"

text \<open>A defaulted document with both phases completed, one that needs defaulting and
  migration, one that needs migration only, and a store that returns each.\<close>

definition jenkins_done :: Jenkins where
  "jenkins_done = Status_update (\<lambda>s. s\<lparr>BaseConfigurationCompletedTime := Some 100,
     UserConfigurationCompletedTime := Some 200\<rparr>) jenkins_defaulted"

definition r_done :: ReconcileJenkins where
  "r_done = r0\<lparr>client_Get := (\<lambda>_. Inr jenkins_done)\<rparr>"

definition r_deprecated :: ReconcileJenkins where
  "r_deprecated = r0\<lparr>client_Get := (\<lambda>_. Inr jenkins_deprecated)\<rparr>"

definition jenkins_deprecated_defaulted :: Jenkins where
  "jenkins_deprecated_defaulted = fst (snd (setDefaults r_deprecated jenkins_deprecated))"

definition jenkins_migratable :: Jenkins where
  "jenkins_migratable = Spec_update (Master_update
     (AnnotationsDeprecated_update (\<lambda>_. [(''team'', ''ci'')]))) jenkins_defaulted"

definition r_migratable :: ReconcileJenkins where
  "r_migratable = r0\<lparr>client_Get := (\<lambda>_. Inr jenkins_migratable)\<rparr>"

text \<open>Stores and engines that fail in one way each, a failure map that already counts
  nine failures, and two failed inner passes.\<close>

definition conflictError :: error where
  "conflictError = StatusError ''Conflict'' ''the object has been modified; please apply your changes to the latest version and try again''"

definition r_conflict :: ReconcileJenkins where
  "r_conflict = r0\<lparr>client_Update := (\<lambda>_. Some conflictError)\<rparr>"

definition r_requeue :: ReconcileJenkins where
  "r_requeue = r_done\<lparr>base_Reconcile := (\<lambda>_. Inr (\<lparr>Requeue = True, RequeueAfter = 0\<rparr>, False))\<rparr>"

definition r_requeue7 :: ReconcileJenkins where
  "r_requeue7 = r_requeue\<lparr>rand_source := 7\<rparr>"

definition r_groovy :: ReconcileJenkins where
  "r_groovy = r_done\<lparr>base_Reconcile := (\<lambda>_. Inl (GroovyError groovy0))\<rparr>"

definition r_unreadable :: ReconcileJenkins where
  "r_unreadable = r0\<lparr>client_Get := (\<lambda>_. Inl internalError)\<rparr>"

definition st9 :: state where
  "st9 = \<lparr>reconcileErrors = [''x'' \<mapsto> \<lparr>err = GroovyError groovy0, counter = 9\<rparr>], trace = []\<rparr>"






section \<open>Properties of the defaulting engine\<close>

text \<open>A defaulted container list is left alone by the loop; after the loop every
  container is defaulted.\<close>

lemma sdc_fix: "list_all containerDefaulted cs \<Longrightarrow> setDefaultsForContainers p ch cs = (ch, cs)"
  by (induction cs arbitrary: ch) (auto simp: setDefaultsForContainer_def Let_def containerDefaulted_def)

lemma sdc_defaulted: "pkgs_ok p \<Longrightarrow> list_all containerDefaulted (snd (setDefaultsForContainers p ch cs))"
  by (induction cs arbitrary: ch)
     (auto simp: setDefaultsForContainer_def Let_def containerDefaulted_def pkgs_ok_def PullAlways_def case_prod_beta)

lemma JavaOps_append: "\<not> isJavaOpsVariableNotSet_loop p (envs @ [\<lparr>EnvVar_Name = JavaOpsVariableName p, EnvVar_Value = v\<rparr>])"
  by (induction envs) auto


text \<open>No stretch of \<^verbatim>\<open>setDefaults\<close> changes defaulted locals.\<close>

lemma image_id: "jenkinsContainerDefaulted p (jenkinsContainer s) \<Longrightarrow> setDefaults_image p s = s"
  by (auto simp add: setDefaults_image_def jenkinsContainerDefaulted_def Let_def)
lemma probes_id: "jenkinsContainerDefaulted p (jenkinsContainer s) \<Longrightarrow> setDefaults_probes p s = s"
  by (auto simp add: setDefaults_probes_def jenkinsContainerDefaulted_def Let_def)
lemma command_id: "jenkinsContainerDefaulted p (jenkinsContainer s) \<Longrightarrow> setDefaults_command p s = s"
  by (auto simp add: setDefaults_command_def jenkinsContainerDefaulted_def Let_def)
lemma plugins_id: "jenkinsContainerDefaulted p (jenkinsContainer s) \<Longrightarrow> specDefaulted (doc s) \<Longrightarrow> setDefaults_plugins p s = s"
  by (auto simp add: setDefaults_plugins_def jenkinsContainerDefaulted_def specDefaulted_def Let_def)
lemma services_id: "specDefaulted (doc s) \<Longrightarrow> setDefaults_services r s = s"
  by (auto simp add: setDefaults_services_def specDefaulted_def Let_def)
lemma others_id: "specDefaulted (doc s) \<Longrightarrow> list_all containerDefaulted (drop 1 (Containers (Master (Spec (doc s))))) \<Longrightarrow>
   setDefaults_others p s = s"
  by (auto simp add: setDefaults_others_def specDefaulted_def sdc_fix Let_def simp del: One_nat_def)
lemma store_id: "Containers (Master (Spec (doc s))) = jenkinsContainer s # cs \<Longrightarrow> setDefaults_store s = s"
  by (cases cs) (simp_all add: setDefaults_store_def)
lemma settings_id: "specDefaulted (doc s) \<Longrightarrow> setDefaults_settings p s = s"
  by (auto simp add: setDefaults_settings_def specDefaulted_def JenkinsAPISettings_zero_def Let_def)

lemma defaulted_fix:
  assumes "defaulted (pk r) j"
  shows "setDefaults r j = ((False, None), j, [])"
proof -
  from assms obtain c cs where cs: "Containers (Master (Spec j)) = c # cs"
    and c: "jenkinsContainerDefaulted (pk r) c" and rest: "list_all containerDefaulted cs"
    and sp: "specDefaulted j"
    by (auto simp: defaulted_def split: list.splits)
  define s where "s = \<lparr>changed = False, jenkinsContainer = c, doc = j\<rparr>"
  have s: "jenkinsContainerDefaulted (pk r) (jenkinsContainer s)" "specDefaulted (doc s)"
    "list_all containerDefaulted (drop 1 (Containers (Master (Spec (doc s)))))"
    "Containers (Master (Spec (doc s))) = jenkinsContainer s # cs"
    using cs c rest sp by (simp_all add: s_def)
  have nm: "Container_Name c = JenkinsMasterContainerName (pk r)"
    using c by (simp add: jenkinsContainerDefaulted_def)
  have "setDefaults r j = (if changed s then ((changed s, errors_WithStack (client_Update r (doc s))), doc s,
                [Update (doc s)]) else ((changed s, None), doc s, []))"
    unfolding setDefaults_def Let_def
    using cs nm s
    by (simp add: s_def[symmetric] image_id probes_id command_id plugins_id services_id others_id
         store_id settings_id del: One_nat_def)
  then show ?thesis by (simp add: s_def)
qed


text \<open>What the stretches leave untouched.\<close>

lemma doc_frame [simp]:
  "doc (setDefaults_image p s) = doc s"
  "doc (setDefaults_probes p s) = doc s"
  "doc (setDefaults_command p s) = doc s"
  by (simp_all add: setDefaults_image_def setDefaults_probes_def setDefaults_command_def Let_def)

lemma jenkinsContainer_frame [simp]:
  "jenkinsContainer (setDefaults_services r s) = jenkinsContainer s"
  "jenkinsContainer (setDefaults_others p s) = jenkinsContainer s"
  "jenkinsContainer (setDefaults_store s) = jenkinsContainer s"
  "jenkinsContainer (setDefaults_settings p s) = jenkinsContainer s"
  by (simp_all add: setDefaults_services_def setDefaults_others_def setDefaults_store_def
        setDefaults_settings_def Let_def case_prod_beta)

lemma setDefaults_defaulted:
  assumes ok: "pkgs_ok (pk r)"
    and nb: "Containers (Master (Spec j)) = [] \<or>
             Container_Name (Containers (Master (Spec j)) ! 0) = JenkinsMasterContainerName (pk r)"
  shows "defaulted (pk r) (fst (snd (setDefaults r j)))"
proof -
  define p where "p = pk r"
  define s0 where "s0 = \<lparr>changed = (length (Containers (Master (Spec j))) = 0),
       jenkinsContainer = (if length (Containers (Master (Spec j))) = 0
          then Container_zero\<lparr>Container_Name := JenkinsMasterContainerName p\<rparr>
          else Containers (Master (Spec j)) ! 0),
       doc = j\<rparr>"
  define s1 where "s1 = setDefaults_image p s0"
  define s2 where "s2 = setDefaults_probes p s1"
  define s3 where "s3 = setDefaults_command p s2"
  define s4 where "s4 = setDefaults_plugins p s3"
  define s5 where "s5 = setDefaults_services r s4"
  define s6 where "s6 = setDefaults_others p s5"
  define s7 where "s7 = setDefaults_store s6"
  define s8 where "s8 = setDefaults_settings p s7"
  have okp: "pkgs_ok p" using ok by (simp add: p_def)
  have a0: "Container_Name (jenkinsContainer s0) = JenkinsMasterContainerName p"
    using nb by (auto simp: s0_def p_def)
  have a1: "Container_Name (jenkinsContainer s1) = JenkinsMasterContainerName p
      \<and> Image (jenkinsContainer s1) \<noteq> [] \<and> ImagePullPolicy (jenkinsContainer s1) \<noteq> []"
    using a0 okp unfolding s1_def
    by (auto simp: setDefaults_image_def Let_def pkgs_ok_def PullAlways_def)
  have a2: "Container_Name (jenkinsContainer s2) = JenkinsMasterContainerName p
      \<and> Image (jenkinsContainer s2) \<noteq> [] \<and> ImagePullPolicy (jenkinsContainer s2) \<noteq> []
      \<and> ReadinessProbe (jenkinsContainer s2) \<noteq> None \<and> LivenessProbe (jenkinsContainer s2) \<noteq> None"
    using a1 unfolding s2_def
    by (auto simp: setDefaults_probes_def Let_def)
  have a3: "Container_Name (jenkinsContainer s3) = JenkinsMasterContainerName p
      \<and> Image (jenkinsContainer s3) \<noteq> [] \<and> ImagePullPolicy (jenkinsContainer s3) \<noteq> []
      \<and> ReadinessProbe (jenkinsContainer s3) \<noteq> None \<and> LivenessProbe (jenkinsContainer s3) \<noteq> None
      \<and> Command (jenkinsContainer s3) \<noteq> [] \<and> \<not> isJavaOpsVariableNotSet p (jenkinsContainer s3)"
    using a2 okp unfolding s3_def
    by (auto simp: setDefaults_command_def Let_def pkgs_ok_def isJavaOpsVariableNotSet_def JavaOps_append)
  have a4: "jenkinsContainerDefaulted p (jenkinsContainer s4)"
    using a3 okp unfolding s4_def
    by (auto simp: setDefaults_plugins_def Let_def pkgs_ok_def jenkinsContainerDefaulted_def
          isJavaOpsVariableNotSet_def)
  have d3: "doc s3 = j" by (simp add: s3_def s2_def s1_def s0_def)
  have b4: "BasePlugins (Master (Spec (doc s4))) \<noteq> []"
    "Containers (Master (Spec (doc s4))) = Containers (Master (Spec j))"
    using okp d3 unfolding s4_def
    by (auto simp: setDefaults_plugins_def Let_def pkgs_ok_def basePlugins_def)
  have b5: "BasePlugins (Master (Spec (doc s5))) \<noteq> []"
    "Containers (Master (Spec (doc s5))) = Containers (Master (Spec j))"
    "Service (Spec (doc s5)) \<noteq> Service_zero" "SlaveService (Spec (doc s5)) \<noteq> Service_zero"
    using b4 unfolding s5_def
    by (auto simp: setDefaults_services_def Let_def Service_zero_def ServiceTypeClusterIP_def
          ServiceTypeNodePort_def)
  have b6: "BasePlugins (Master (Spec (doc s6))) \<noteq> []"
    "Service (Spec (doc s6)) \<noteq> Service_zero" "SlaveService (Spec (doc s6)) \<noteq> Service_zero"
    "list_all containerDefaulted (drop 1 (Containers (Master (Spec (doc s6)))))"
    "\<not> (ContainerName (Backup (Spec (doc s6))) \<noteq> [] \<and> Interval (Backup (Spec (doc s6))) = 0)"
    using b5 sdc_defaulted[OF okp] unfolding s6_def
    by (auto simp: setDefaults_others_def Let_def case_prod_beta simp del: One_nat_def)
  have b7: "BasePlugins (Master (Spec (doc s7))) \<noteq> []"
    "Service (Spec (doc s7)) \<noteq> Service_zero" "SlaveService (Spec (doc s7)) \<noteq> Service_zero"
    "\<not> (ContainerName (Backup (Spec (doc s7))) \<noteq> [] \<and> Interval (Backup (Spec (doc s7))) = 0)"
    "Containers (Master (Spec (doc s7))) = jenkinsContainer s6 # drop 1 (Containers (Master (Spec (doc s6))))"
    using b6 unfolding s7_def
    by (auto simp: setDefaults_store_def Let_def simp del: One_nat_def)
  have b8: "specDefaulted (doc s8)"
    "Containers (Master (Spec (doc s8))) = Containers (Master (Spec (doc s7)))"
    using b7(1-4) okp unfolding s8_def
    by (auto simp: setDefaults_settings_def Let_def specDefaulted_def pkgs_ok_def
          JenkinsAPISettings_zero_def)
  have jc: "jenkinsContainer s6 = jenkinsContainer s4" by (simp add: s6_def s5_def)
  have "defaulted p (doc s8)"
    using a4 b6(4) b7(5) b8 jc by (simp add: defaulted_def)
  moreover have "fst (snd (setDefaults r j)) = doc s8"
    using nb unfolding setDefaults_def Let_def
    by (auto simp: s8_def s7_def s6_def s5_def s4_def s3_def s2_def s1_def s0_def p_def)
  ultimately show ?thesis by (simp add: p_def)
qed


lemma changed_mono:
  "changed s \<Longrightarrow> changed (setDefaults_image p s)"
  "changed s \<Longrightarrow> changed (setDefaults_probes p s)"
  "changed s \<Longrightarrow> changed (setDefaults_command p s)"
  "changed s \<Longrightarrow> changed (setDefaults_plugins p s)"
  "changed s \<Longrightarrow> changed (setDefaults_services r s)"
  "changed s \<Longrightarrow> changed (setDefaults_store s)"
  "changed s \<Longrightarrow> changed (setDefaults_settings p s)"
  by (simp_all add: setDefaults_image_def setDefaults_probes_def setDefaults_command_def
        setDefaults_plugins_def setDefaults_services_def setDefaults_store_def
        setDefaults_settings_def Let_def)

lemma sdc_changed_mono: "ch \<Longrightarrow> fst (setDefaultsForContainers p ch cs)"
  by (induction cs arbitrary: ch) (auto simp: Let_def case_prod_beta)

lemma changed_mono_others: "changed s \<Longrightarrow> changed (setDefaults_others p s)"
  by (simp add: setDefaults_others_def Let_def case_prod_beta sdc_changed_mono)

lemma setDefaults_empty_changes:
  "Containers (Master (Spec j)) = [] \<Longrightarrow> fst (fst (setDefaults r j))"
  by (simp add: setDefaults_def Let_def changed_mono changed_mono_others)

lemma setDefaults_shape:
  "setDefaults r j =
     (if Containers (Master (Spec j)) \<noteq> [] \<and>
         Container_Name (Containers (Master (Spec j)) ! 0) \<noteq> JenkinsMasterContainerName (pk r)
      then ((False, Some (firstContainerError (pk r))), j, [])
      else if fst (fst (setDefaults r j))
      then ((True, errors_WithStack (client_Update r (fst (snd (setDefaults r j))))),
            fst (snd (setDefaults r j)), [Update (fst (snd (setDefaults r j)))])
      else ((False, None), fst (snd (setDefaults r j)), []))"
  by (simp add: setDefaults_def Let_def)

text \<open>
  Claim C9. When the container list is not empty and its first container does not carry
  the reserved name of the Jenkins container, \<^verbatim>\<open>setDefaults\<close> returns the
  validation error with \<^verbatim>\<open>requeue = false\<close>, the document is the one it was
  given, and no action was performed: the store was not called.
\<close>

theorem setDefaults_rejects_misnamed_first_container:
  assumes "Containers (Master (Spec jenkins)) \<noteq> []"
    and "Container_Name (Containers (Master (Spec jenkins)) ! 0) \<noteq> JenkinsMasterContainerName (pk r)"
  shows "setDefaults r jenkins = ((False, Some (firstContainerError (pk r))), jenkins, [])"
  using assms by (simp add: setDefaults_def)

theorem setDefaults_rejects_misnamed_first_container_witness:
  "Containers (Master (Spec jenkins_misnamed)) \<noteq> [] \<and>
   Container_Name (Containers (Master (Spec jenkins_misnamed)) ! 0) \<noteq> JenkinsMasterContainerName (pk r0) \<and>
   setDefaults r0 jenkins_misnamed = ((False, Some (firstContainerError (pk r0))), jenkins_misnamed, [])"
proof -
  have 1: "Containers (Master (Spec jenkins_misnamed)) \<noteq> []"
    by (simp add: jenkins_misnamed_def)
  have 2: "Container_Name (Containers (Master (Spec jenkins_misnamed)) ! 0) \<noteq> JenkinsMasterContainerName (pk r0)"
    by (simp add: jenkins_misnamed_def r0_def pkgs0_def Container_zero_def)
  show ?thesis
    using 1 2 setDefaults_rejects_misnamed_first_container [OF 1 2] by simp
qed

text \<open>
  Claim C8. The defaulting engine is idempotent. When the defaults of the other packages
  are usable and a first application returns no error, a second application to the
  resulting document returns that document, reports \<^verbatim>\<open>changed = false\<close> and
  does not call the store.
\<close>

theorem setDefaults_idempotent:
  assumes "pkgs_ok (pk r)"
    and "setDefaults r jenkins = ((requeue, None), jenkins', tr)"
  shows "setDefaults r jenkins' = ((False, None), jenkins', [])"
proof -
  have nb: "Containers (Master (Spec jenkins)) = [] \<or>
      Container_Name (Containers (Master (Spec jenkins)) ! 0) = JenkinsMasterContainerName (pk r)"
  proof (rule ccontr)
    assume "\<not> ?thesis"
    then have "setDefaults r jenkins = ((False, Some (firstContainerError (pk r))), jenkins, [])"
      by (simp add: setDefaults_def)
    with assms(2) show False by simp
  qed
  have "defaulted (pk r) (fst (snd (setDefaults r jenkins)))"
    by (rule setDefaults_defaulted [OF assms(1) nb])
  then have "defaulted (pk r) jenkins'" using assms(2) by simp
  then show ?thesis by (rule defaulted_fix)
qed

lemma pkgs0_ok: "pkgs_ok pkgs0"
  by (simp add: pkgs_ok_def pkgs0_def isResourceRequirementsNotSet_def ResourceRequirements_zero_def)

lemma jenkins0_first_pass:
  "setDefaults r0 jenkins0 = ((True, None), jenkins_defaulted, [Update jenkins_defaulted])"
proof -
  have e: "Containers (Master (Spec jenkins0)) = []" by (simp add: jenkins0_def)
  have "fst (fst (setDefaults r0 jenkins0))" by (rule setDefaults_empty_changes [OF e])
  then show ?thesis
    using e by (subst setDefaults_shape) (simp add: jenkins_defaulted_def r0_def errors_WithStack_def)
qed

theorem setDefaults_idempotent_witness:
  "pkgs_ok (pk r0) \<and>
   setDefaults r0 jenkins0 = ((True, None), jenkins_defaulted, [Update jenkins_defaulted]) \<and>
   setDefaults r0 jenkins_defaulted = ((False, None), jenkins_defaulted, [])"
proof -
  have 1: "pkgs_ok (pk r0)" using pkgs0_ok by (simp add: r0_def)
  show ?thesis
    using 1 jenkins0_first_pass setDefaults_idempotent [OF 1 jenkins0_first_pass] by simp
qed

section \<open>Properties of a pass\<close>

lemma updates_append [simp]: "updates (as @ bs) = updates as @ updates bs"
  by (induction as rule: updates.induct) simp_all

lemma notices_append [simp]: "notices (as @ bs) = notices as @ notices bs"
  by (induction as rule: notices.induct) simp_all

lemma stretch_keeps:
  "Status (doc (setDefaults_plugins p s)) = Status (doc s)"
  "Status (doc (setDefaults_services r s)) = Status (doc s)"
  "Status (doc (setDefaults_others p s)) = Status (doc s)"
  "Status (doc (setDefaults_store s)) = Status (doc s)"
  "Status (doc (setDefaults_settings p s)) = Status (doc s)"
  "Annotations (Master (Spec (doc (setDefaults_plugins p s)))) = Annotations (Master (Spec (doc s)))"
  "Annotations (Master (Spec (doc (setDefaults_services r s)))) = Annotations (Master (Spec (doc s)))"
  "Annotations (Master (Spec (doc (setDefaults_others p s)))) = Annotations (Master (Spec (doc s)))"
  "Annotations (Master (Spec (doc (setDefaults_store s)))) = Annotations (Master (Spec (doc s)))"
  "Annotations (Master (Spec (doc (setDefaults_settings p s)))) = Annotations (Master (Spec (doc s)))"
  "AnnotationsDeprecated (Master (Spec (doc (setDefaults_plugins p s)))) = AnnotationsDeprecated (Master (Spec (doc s)))"
  "AnnotationsDeprecated (Master (Spec (doc (setDefaults_services r s)))) = AnnotationsDeprecated (Master (Spec (doc s)))"
  "AnnotationsDeprecated (Master (Spec (doc (setDefaults_others p s)))) = AnnotationsDeprecated (Master (Spec (doc s)))"
  "AnnotationsDeprecated (Master (Spec (doc (setDefaults_store s)))) = AnnotationsDeprecated (Master (Spec (doc s)))"
  "AnnotationsDeprecated (Master (Spec (doc (setDefaults_settings p s)))) = AnnotationsDeprecated (Master (Spec (doc s)))"
  by (simp_all add: setDefaults_plugins_def setDefaults_services_def setDefaults_others_def
        setDefaults_store_def setDefaults_settings_def Let_def case_prod_beta)

lemma setDefaults_keeps:
  "Status (fst (snd (setDefaults r j))) = Status j"
  "Annotations (Master (Spec (fst (snd (setDefaults r j))))) = Annotations (Master (Spec j))"
  "AnnotationsDeprecated (Master (Spec (fst (snd (setDefaults r j))))) = AnnotationsDeprecated (Master (Spec j))"
  by (simp_all add: setDefaults_def Let_def stretch_keeps)

lemma setDefaults_actions:
  "snd (snd (setDefaults r j)) =
     (if fst (fst (setDefaults r j)) then [Update (fst (snd (setDefaults r j)))] else [])"
  by (simp add: setDefaults_def Let_def)

lemma handleDeprecatedData_eq:
  "handleDeprecatedData r j =
     (if AnnotationsDeprecated (Master (Spec j)) \<noteq> []
      then ((True, errors_WithStack (client_Update r (migrated j))), migrated j, [Update (migrated j)])
      else ((False, None), j, []))"
  by (simp add: handleDeprecatedData_def migrated_def Let_def)

lemma migrated_Status [simp]: "Status (migrated j) = Status j"
  by (simp add: migrated_def)

lemma user_keepsBase:
  "BaseConfigurationCompletedTime (Status j) = Some t \<Longrightarrow> baseStampKept t (reconcile_user r j)"
  by (auto simp: baseStampKept_def reconcile_user_def Let_def split: sum.splits option.splits)

lemma user_keepsUser:
  "UserConfigurationCompletedTime (Status j) = Some t \<Longrightarrow> userStampKept t (reconcile_user r j)"
  by (auto simp: userStampKept_def reconcile_user_def Let_def split: sum.splits option.splits)

lemma baseStampKept_prefix:
  "baseStampKept t (x, tr) \<Longrightarrow> \<forall>j \<in> set (updates pre). BaseConfigurationCompletedTime (Status j) = Some t
    \<Longrightarrow> \<not> list_ex isBaseComplete (notices pre) \<Longrightarrow> baseStampKept t (x, pre @ tr)"
  by (auto simp: baseStampKept_def)

lemma userStampKept_prefix:
  "userStampKept t (x, tr) \<Longrightarrow> \<forall>j \<in> set (updates pre). UserConfigurationCompletedTime (Status j) = Some t
    \<Longrightarrow> \<not> list_ex isUserComplete (notices pre) \<Longrightarrow> userStampKept t (x, pre @ tr)"
  by (auto simp: userStampKept_def)

lemma base_keepsBase:
  assumes "BaseConfigurationCompletedTime (Status j) = Some t"
  shows "baseStampKept t (reconcile_base r j)"
proof -
  obtain x tr where u: "reconcile_user r j = (x, tr)" by (cases "reconcile_user r j")
  have k: "baseStampKept t (x, [BaseValidate, BaseReconcile] @ tr)"
    using user_keepsBase [OF assms, of r] unfolding u by (rule baseStampKept_prefix) simp_all
  show ?thesis
    using assms k
    by (auto simp: reconcile_base_def u baseStampKept_def split: sum.splits)
qed

lemma base_keepsUser:
  assumes "UserConfigurationCompletedTime (Status j) = Some t"
  shows "userStampKept t (reconcile_base r j)"
proof -
  define j' where "j' = Status_update (BaseConfigurationCompletedTime_update (\<lambda>_. Some (metav1_Now r 0))) j"
  have a': "UserConfigurationCompletedTime (Status j') = Some t" using assms by (simp add: j'_def)
  obtain x tr where u: "reconcile_user r j = (x, tr)" by (cases "reconcile_user r j")
  obtain x' tr' where u': "reconcile_user r j' = (x', tr')" by (cases "reconcile_user r j'")
  have k: "userStampKept t (x, tr)" using user_keepsUser [OF assms, of r] by (simp add: u)
  have k': "userStampKept t (x', tr')" using user_keepsUser [OF a', of r] by (simp add: u')
  show ?thesis
    using assms a' k k'
    by (auto simp: reconcile_base_def Let_def u u' j'_def[symmetric] userStampKept_def split: sum.splits option.splits)
qed


text \<open>
  Claim C7. When the document read from the store carries the completion time of a
  phase, a pass never overwrites it and sends no completion notice of that phase: every
  document the pass hands to the store or returns has the same completion time, and the
  trace holds no such notice. The block that sets the time and sends the notice runs
  only when the field is nil.
\<close>

theorem completion_recorded_once:
  assumes "client_Get r request = Inr jenkins"
  shows "(\<forall>t. BaseConfigurationCompletedTime (Status jenkins) = Some t \<longrightarrow>
            baseStampKept t (reconcile r request)) \<and>
         (\<forall>t. UserConfigurationCompletedTime (Status jenkins) = Some t \<longrightarrow>
            userStampKept t (reconcile r request))"
proof -
  obtain y j1 tr1 where sd0: "setDefaults r jenkins = (y, j1, tr1)"
    by (cases "setDefaults r jenkins")
  obtain rq1 e1 where y: "y = (rq1, e1)" by (cases y)
  note sd = sd0 [unfolded y]
  have s1: "Status j1 = Status jenkins"
    using setDefaults_keeps(1) [of r jenkins] unfolding sd by simp
  have t1: "tr1 = [Update j1] \<or> tr1 = []"
    using setDefaults_actions [of r jenkins] unfolding sd by (simp split: if_splits)
  obtain x tr where b: "reconcile_base r j1 = (x, tr)" by (cases "reconcile_base r j1")
  obtain x' tr' where b': "reconcile_base r (migrated j1) = (x', tr')"
    by (cases "reconcile_base r (migrated j1)")
  show ?thesis
  proof (intro conjI allI impI)
    fix t assume a: "BaseConfigurationCompletedTime (Status jenkins) = Some t"
    have "baseStampKept t (x, tr)" "baseStampKept t (x', tr')"
      using base_keepsBase [of j1 t r] base_keepsBase [of "migrated j1" t r] a s1 b b' by simp_all
    then show "baseStampKept t (reconcile r request)"
      using a s1
      using t1 by (auto simp: reconcile_def assms sd handleDeprecatedData_eq b b' baseStampKept_def)
  next
    fix t assume a: "UserConfigurationCompletedTime (Status jenkins) = Some t"
    have "userStampKept t (x, tr)" "userStampKept t (x', tr')"
      using base_keepsUser [of j1 t r] base_keepsUser [of "migrated j1" t r] a s1 b b' by simp_all
    then show "userStampKept t (reconcile r request)"
      using a s1
      using t1 by (auto simp: reconcile_def assms sd handleDeprecatedData_eq b b' userStampKept_def)
  qed
qed

lemma specDefaulted_Status_update [simp]: "specDefaulted (Status_update f j) = specDefaulted j"
  by (simp add: specDefaulted_def)

lemma defaulted_Status_update [simp]: "defaulted p (Status_update f j) = defaulted p j"
  by (simp add: defaulted_def split: list.splits)

lemma jenkins_defaulted_defaulted: "defaulted pkgs0 jenkins_defaulted"
proof -
  have "pkgs_ok (pk r0)" using pkgs0_ok by (simp add: r0_def)
  moreover have "Containers (Master (Spec jenkins0)) = []" by (simp add: jenkins0_def)
  ultimately have "defaulted (pk r0) (fst (snd (setDefaults r0 jenkins0)))"
    by (intro setDefaults_defaulted) simp_all
  then show ?thesis by (simp add: jenkins_defaulted_def r0_def)
qed

lemma jenkins_done_pass:
  "reconcile r_done req0 = ((Result_zero, Some jenkins_done, None),
     [Get req0, BaseValidate, BaseReconcile, UserValidate, UserReconcileCasc, UserReconcileOthers])"
proof -
  have "defaulted (pk r_done) jenkins_done"
    using jenkins_defaulted_defaulted by (simp add: r_done_def r0_def jenkins_done_def)
  then have sd: "setDefaults r_done jenkins_done = ((False, None), jenkins_done, [])"
    by (rule defaulted_fix)
  have ad: "AnnotationsDeprecated (Master (Spec jenkins_done)) = []"
    using setDefaults_keeps(3) [of r0 jenkins0]
    by (simp add: jenkins_done_def jenkins_defaulted_def jenkins0_def)
  have st: "BaseConfigurationCompletedTime (Status jenkins_done) = Some 100"
    "UserConfigurationCompletedTime (Status jenkins_done) = Some 200"
    by (simp_all add: jenkins_done_def)
  have u: "reconcile_user r_done jenkins_done = ((Result_zero, Some jenkins_done, None),
      [UserValidate, UserReconcileCasc, UserReconcileOthers])"
    using st by (simp add: reconcile_user_def r_done_def r0_def Result_zero_def)
  have b: "reconcile_base r_done jenkins_done = ((Result_zero, Some jenkins_done, None),
      [BaseValidate, BaseReconcile, UserValidate, UserReconcileCasc, UserReconcileOthers])"
    using st unfolding reconcile_base_def u by (simp add: r_done_def r0_def Result_zero_def)
  have g: "client_Get r_done req0 = Inr jenkins_done" by (simp add: r_done_def)
  show ?thesis
    unfolding reconcile_def g by (simp add: sd handleDeprecatedData_eq ad b)
qed

theorem completion_recorded_once_witness:
  "client_Get r_done req0 = Inr jenkins_done \<and>
   BaseConfigurationCompletedTime (Status jenkins_done) = Some 100 \<and>
   UserConfigurationCompletedTime (Status jenkins_done) = Some 200 \<and>
   reconcile r_done req0 = ((Result_zero, Some jenkins_done, None),
     [Get req0, BaseValidate, BaseReconcile, UserValidate, UserReconcileCasc, UserReconcileOthers]) \<and>
   baseStampKept 100 (reconcile r_done req0) \<and> userStampKept 200 (reconcile r_done req0)"
proof -
  have g: "client_Get r_done req0 = Inr jenkins_done" by (simp add: r_done_def)
  have st: "BaseConfigurationCompletedTime (Status jenkins_done) = Some 100"
    "UserConfigurationCompletedTime (Status jenkins_done) = Some 200"
    by (simp_all add: jenkins_done_def)
  show ?thesis
    using g st jenkins_done_pass completion_recorded_once [OF g] by simp
qed


lemma jenkins_deprecated_first_pass:
  "setDefaults r_deprecated jenkins_deprecated =
     ((True, None), jenkins_deprecated_defaulted, [Update jenkins_deprecated_defaulted])"
proof -
  have e: "Containers (Master (Spec jenkins_deprecated)) = []"
    by (simp add: jenkins_deprecated_def jenkins0_def)
  have "fst (fst (setDefaults r_deprecated jenkins_deprecated))"
    by (rule setDefaults_empty_changes [OF e])
  moreover have "fst (snd (setDefaults r_deprecated jenkins_deprecated)) = jenkins_deprecated_defaulted"
    by (simp add: jenkins_deprecated_defaulted_def)
  ultimately show ?thesis
    using e by (subst setDefaults_shape) (simp add: r_deprecated_def r0_def errors_WithStack_def)
qed

lemma jenkins_deprecated_defaulted_Containers:
  "Containers (Master (Spec jenkins_deprecated_defaulted)) \<noteq> []"
proof -
  have "pkgs_ok (pk r_deprecated)" using pkgs0_ok by (simp add: r_deprecated_def r0_def)
  moreover have "Containers (Master (Spec jenkins_deprecated)) = []"
    by (simp add: jenkins_deprecated_def jenkins0_def)
  ultimately have "defaulted (pk r_deprecated) (fst (snd (setDefaults r_deprecated jenkins_deprecated)))"
    by (intro setDefaults_defaulted) simp_all
  then show ?thesis
    by (auto simp: jenkins_deprecated_defaulted_def defaulted_def split: list.splits)
qed

text \<open>
  Claim C1, as stated, fails: a pass runs \<^verbatim>\<open>setDefaults\<close> before
  \<^verbatim>\<open>handleDeprecatedData\<close>. On a document that needs both, the document sent
  to the store is the defaulted one, its deprecated annotations still in place.
\<close>

theorem migration_first_counterexample:
  "client_Get r_deprecated req0 = Inr jenkins_deprecated \<and>
   AnnotationsDeprecated (Master (Spec jenkins_deprecated)) = [(''team'', ''ci'')] \<and>
   Containers (Master (Spec jenkins_deprecated)) = [] \<and>
   reconcile r_deprecated req0 =
     ((\<lparr>Requeue = True, RequeueAfter = 0\<rparr>, Some jenkins_deprecated_defaulted, None),
      [Get req0, Update jenkins_deprecated_defaulted]) \<and>
   AnnotationsDeprecated (Master (Spec jenkins_deprecated_defaulted)) = [(''team'', ''ci'')] \<and>
   Annotations (Master (Spec jenkins_deprecated_defaulted)) = [] \<and>
   Containers (Master (Spec jenkins_deprecated_defaulted)) \<noteq> [] \<and>
   snd (reconcile r_deprecated req0) \<noteq> [Get req0, Update (migrated jenkins_deprecated)]"
proof -
  have g: "client_Get r_deprecated req0 = Inr jenkins_deprecated" by (simp add: r_deprecated_def)
  have a: "AnnotationsDeprecated (Master (Spec jenkins_deprecated)) = [(''team'', ''ci'')]"
    "Annotations (Master (Spec jenkins_deprecated)) = []"
    "Containers (Master (Spec jenkins_deprecated)) = []"
    by (simp_all add: jenkins_deprecated_def jenkins0_def)
  have p: "reconcile r_deprecated req0 =
     ((\<lparr>Requeue = True, RequeueAfter = 0\<rparr>, Some jenkins_deprecated_defaulted, None),
      [Get req0, Update jenkins_deprecated_defaulted])"
    unfolding reconcile_def g by (simp add: jenkins_deprecated_first_pass Result_zero_def)
  have k: "AnnotationsDeprecated (Master (Spec jenkins_deprecated_defaulted)) = [(''team'', ''ci'')]"
    "Annotations (Master (Spec jenkins_deprecated_defaulted)) = []"
    using setDefaults_keeps(2,3) [of r_deprecated jenkins_deprecated] a
    by (simp_all add: jenkins_deprecated_defaulted_def)
  have m: "Containers (Master (Spec (migrated jenkins_deprecated))) = []"
    using a by (simp add: migrated_def)
  have "jenkins_deprecated_defaulted \<noteq> migrated jenkins_deprecated"
    using jenkins_deprecated_defaulted_Containers m by auto
  then show ?thesis using g a p k jenkins_deprecated_defaulted_Containers by simp
qed

text \<open>
  Claim C1, amended. A pass applies the defaulting engine first. When it changed the
  document and the store accepted the update, the pass returns "requeue immediately"
  after the read and that one update, and the annotations are as they were read: the
  migration engine did not run. When defaulting changed nothing, the migration engine
  runs; when it moves deprecated annotations and the store accepts the update, the pass
  returns "requeue immediately" after the read and that one update.
\<close>

theorem defaulting_precedes_migration:
  assumes "client_Get r request = Inr jenkins"
  shows "(\<forall>j tr. setDefaults r jenkins = ((True, None), j, tr) \<longrightarrow>
            reconcile r request =
              ((\<lparr>Requeue = True, RequeueAfter = 0\<rparr>, Some j, None), [Get request, Update j]) \<and>
            Annotations (Master (Spec j)) = Annotations (Master (Spec jenkins)) \<and>
            AnnotationsDeprecated (Master (Spec j)) = AnnotationsDeprecated (Master (Spec jenkins))) \<and>
         (\<forall>j tr. setDefaults r jenkins = ((False, None), j, tr) \<and>
            AnnotationsDeprecated (Master (Spec j)) \<noteq> [] \<and>
            client_Update r (migrated j) = None \<longrightarrow>
            reconcile r request =
              ((\<lparr>Requeue = True, RequeueAfter = 0\<rparr>, Some (migrated j), None),
               [Get request, Update (migrated j)]))"
proof -
  have first: "reconcile r request =
       ((\<lparr>Requeue = True, RequeueAfter = 0\<rparr>, Some j, None), [Get request, Update j]) \<and>
     Annotations (Master (Spec j)) = Annotations (Master (Spec jenkins)) \<and>
     AnnotationsDeprecated (Master (Spec j)) = AnnotationsDeprecated (Master (Spec jenkins))"
    if sd: "setDefaults r jenkins = ((True, None), j, tr)" for j tr
  proof -
    have t: "tr = [Update j]" using setDefaults_actions [of r jenkins] unfolding sd by simp
    show ?thesis
      using setDefaults_keeps(2,3) [of r jenkins] unfolding sd
      by (simp add: reconcile_def assms sd t Result_zero_def)
  qed
  have second: "reconcile r request =
       ((\<lparr>Requeue = True, RequeueAfter = 0\<rparr>, Some (migrated j), None),
        [Get request, Update (migrated j)])"
    if sd: "setDefaults r jenkins = ((False, None), j, tr)"
      and h: "AnnotationsDeprecated (Master (Spec j)) \<noteq> []" "client_Update r (migrated j) = None"
    for j tr
  proof -
    have t: "tr = []" using setDefaults_actions [of r jenkins] unfolding sd by simp
    show ?thesis
      using h by (simp add: reconcile_def assms sd t handleDeprecatedData_eq Result_zero_def
          errors_WithStack_def)
  qed
  show ?thesis using first second by blast
qed

lemma jenkins_migratable_first_pass:
  "setDefaults r_migratable jenkins_migratable = ((False, None), jenkins_migratable, [])"
proof -
  have "defaulted pkgs0 jenkins_migratable"
    using jenkins_defaulted_defaulted
    by (simp add: jenkins_migratable_def defaulted_def specDefaulted_def split: list.splits)
  then have "defaulted (pk r_migratable) jenkins_migratable"
    by (simp add: r_migratable_def r0_def)
  then show ?thesis by (rule defaulted_fix)
qed

theorem defaulting_precedes_migration_witness:
  "client_Get r_deprecated req0 = Inr jenkins_deprecated \<and>
   setDefaults r_deprecated jenkins_deprecated =
     ((True, None), jenkins_deprecated_defaulted, [Update jenkins_deprecated_defaulted]) \<and>
   reconcile r_deprecated req0 =
     ((\<lparr>Requeue = True, RequeueAfter = 0\<rparr>, Some jenkins_deprecated_defaulted, None),
      [Get req0, Update jenkins_deprecated_defaulted]) \<and>
   client_Get r_migratable req0 = Inr jenkins_migratable \<and>
   setDefaults r_migratable jenkins_migratable = ((False, None), jenkins_migratable, []) \<and>
   AnnotationsDeprecated (Master (Spec jenkins_migratable)) \<noteq> [] \<and>
   client_Update r_migratable (migrated jenkins_migratable) = None \<and>
   reconcile r_migratable req0 =
     ((\<lparr>Requeue = True, RequeueAfter = 0\<rparr>, Some (migrated jenkins_migratable), None),
      [Get req0, Update (migrated jenkins_migratable)])"
proof -
  have g1: "client_Get r_deprecated req0 = Inr jenkins_deprecated" by (simp add: r_deprecated_def)
  have g2: "client_Get r_migratable req0 = Inr jenkins_migratable" by (simp add: r_migratable_def)
  have a: "AnnotationsDeprecated (Master (Spec jenkins_migratable)) \<noteq> []"
    by (simp add: jenkins_migratable_def)
  have u: "client_Update r_migratable (migrated jenkins_migratable) = None"
    by (simp add: r_migratable_def r0_def)
  show ?thesis
    using g1 g2 a u jenkins_deprecated_first_pass jenkins_migratable_first_pass
      defaulting_precedes_migration [OF g1] defaulting_precedes_migration [OF g2]
    by simp
qed


text \<open>When defaulting fails, by the name check or by the store, the pass ends with that
  error and the migration engine does not run.\<close>

lemma defaulting_error_ends_pass:
  assumes "client_Get r request = Inr jenkins"
    and "setDefaults r jenkins = ((requeue, Some e), j, tr)"
  shows "reconcile r request = ((Result_zero, Some j, Some e), [Get request] @ tr)"
  by (simp add: reconcile_def assms)

section \<open>Properties of the wrapper\<close>

lemma setDefaults_services_depends:
  "pk r = pk r' \<Longrightarrow> UseNodePort r = UseNodePort r' \<Longrightarrow>
     setDefaults_services r s = setDefaults_services r' s"
  by (simp add: setDefaults_services_def)

lemma setDefaults_depends:
  "pk r = pk r' \<Longrightarrow> UseNodePort r = UseNodePort r' \<Longrightarrow>
     fst (snd (setDefaults r j)) = fst (snd (setDefaults r' j)) \<and>
     fst (fst (setDefaults r j)) = fst (fst (setDefaults r' j))"
  by (simp add: setDefaults_def Let_def setDefaults_services_depends [of r r'])

lemma r_conflict_pass:
  "reconcile r_conflict req0 =
     ((Result_zero, Some jenkins_defaulted, Some (WithStack conflictError)),
      [Get req0, Update jenkins_defaulted])"
proof -
  have e: "Containers (Master (Spec jenkins0)) = []" by (simp add: jenkins0_def)
  have c: "fst (fst (setDefaults r_conflict jenkins0))" by (rule setDefaults_empty_changes [OF e])
  have d: "fst (snd (setDefaults r_conflict jenkins0)) = jenkins_defaulted"
    using setDefaults_depends [of r_conflict r0 jenkins0]
    by (simp add: r_conflict_def jenkins_defaulted_def)
  have sd: "setDefaults r_conflict jenkins0 =
      ((True, Some (WithStack conflictError)), jenkins_defaulted, [Update jenkins_defaulted])"
    using e c d by (subst setDefaults_shape) (simp add: r_conflict_def errors_WithStack_def)
  have g: "client_Get r_conflict req0 = Inr jenkins0" by (simp add: r_conflict_def r0_def)
  show ?thesis unfolding reconcile_def g by (simp add: sd)
qed

lemma conflictError_wrapped: "\<not> IsConflict (WithStack conflictError)"
  by simp

lemma conflict_call:
  "Reconcile r_conflict req0 st =
     (let entry = recordError r_conflict (reconcileErrors st ''x'') (WithStack conflictError);
          st' = \<lparr>reconcileErrors = (reconcileErrors st)(''x'' \<mapsto> entry),
                 trace = trace st @ [Get req0, Update jenkins_defaulted]\<rparr>
      in if reconcileFailLimit \<le> counter entry
         then (giveUp, st'\<lparr>trace := trace st' @
                 [Notify (loopFailedEvent r_conflict jenkins_defaulted (WithStack conflictError))]\<rparr>)
         else (requeueNow, st'))"
proof -
  have n: "Request_Name req0 = ''x''" by (simp add: req0_def)
  show ?thesis
    unfolding Reconcile_def r_conflict_pass
    by (simp add: Reconcile_classify_def Let_def requeueNow_def giveUp_def Result_zero_def n)
qed

lemma limit_above_one: "\<not> (10::64 word) \<le> 1"
  by (simp add: word_le_nat_alt)

text \<open>
  Claim C5 asks that a conflict is requeued without touching the failure map. With a
  store whose \<^verbatim>\<open>Update\<close> answers with a conflict, \<^verbatim>\<open>setDefaults\<close>
  returns the conflict wrapped by \<^verbatim>\<open>errors.WithStack\<close>, which
  \<^verbatim>\<open>IsConflict\<close> does not recognise: the first call creates an entry with count
  one for the identity, and the tenth call in a row returns \<^verbatim>\<open>Requeue: false\<close>.
\<close>

theorem store_conflict_is_counted:
  "client_Update r_conflict jenkins_defaulted = Some (StatusError ''Conflict''
     ''the object has been modified; please apply your changes to the latest version and try again'') \<and>
   reconcile r_conflict req0 =
     ((Result_zero, Some jenkins_defaulted, Some (WithStack conflictError)),
      [Get req0, Update jenkins_defaulted]) \<and>
   Reconcile r_conflict req0 st0 =
     (Return \<lparr>Requeue = True, RequeueAfter = 0\<rparr> None,
      \<lparr>reconcileErrors = [''x'' \<mapsto> \<lparr>err = WithStack conflictError, counter = 1\<rparr>],
       trace = [Get req0, Update jenkins_defaulted]\<rparr>) \<and>
   fst (Reconcile_times r_conflict req0 10 st0) =
     [Return \<lparr>Requeue = True, RequeueAfter = 0\<rparr> None, Return \<lparr>Requeue = True, RequeueAfter = 0\<rparr> None,
      Return \<lparr>Requeue = True, RequeueAfter = 0\<rparr> None, Return \<lparr>Requeue = True, RequeueAfter = 0\<rparr> None,
      Return \<lparr>Requeue = True, RequeueAfter = 0\<rparr> None, Return \<lparr>Requeue = True, RequeueAfter = 0\<rparr> None,
      Return \<lparr>Requeue = True, RequeueAfter = 0\<rparr> None, Return \<lparr>Requeue = True, RequeueAfter = 0\<rparr> None,
      Return \<lparr>Requeue = True, RequeueAfter = 0\<rparr> None, Return \<lparr>Requeue = False, RequeueAfter = 0\<rparr> None]"
proof -
  have u: "client_Update r_conflict jenkins_defaulted = Some (StatusError ''Conflict''
     ''the object has been modified; please apply your changes to the latest version and try again'')"
    by (simp add: r_conflict_def conflictError_def)
  have one: "Reconcile r_conflict req0 st0 =
     (Return \<lparr>Requeue = True, RequeueAfter = 0\<rparr> None,
      \<lparr>reconcileErrors = [''x'' \<mapsto> \<lparr>err = WithStack conflictError, counter = 1\<rparr>],
       trace = [Get req0, Update jenkins_defaulted]\<rparr>)"
    by (simp add: conflict_call Let_def recordError_def st0_def reconcileFailLimit_def
          requeueNow_def limit_above_one)
  have ten: "(10::nat) = Suc (Suc (Suc (Suc (Suc (Suc (Suc (Suc (Suc (Suc 0)))))))))" by simp
  have many: "fst (Reconcile_times r_conflict req0 10 st0) =
     [requeueNow, requeueNow, requeueNow, requeueNow, requeueNow, requeueNow, requeueNow,
      requeueNow, requeueNow, giveUp]"
    unfolding ten
    by (simp add: conflict_call Let_def recordError_def st0_def reconcileFailLimit_def
          requeueNow_def giveUp_def limit_above_one)
  show ?thesis
    using u r_conflict_pass one many by (simp add: requeueNow_def giveUp_def)
qed

text \<open>A conflict that reaches the wrapper unwrapped, as an engine may return it, is
  requeued at once and leaves the failure map alone.\<close>

lemma recognised_conflict_requeues:
  assumes "reconcile r request = ((result, jo, Some (StatusError ''Conflict'' m)), tr)"
  shows "Reconcile r request st =
           (Return \<lparr>Requeue = True, RequeueAfter = 0\<rparr> None, st\<lparr>trace := trace st @ tr\<rparr>)"
  by (simp add: Reconcile_def assms Reconcile_classify_def Result_zero_def)

text \<open>
  Claim C6, amended. When the inner pass succeeds with \<^verbatim>\<open>Requeue: true\<close> and a
  zero delay, the wrapper returns \<^verbatim>\<open>Requeue: true\<close> with a delay of
  \<^verbatim>\<open>rand.Intn(10)\<close> milliseconds: a whole number of milliseconds from 0 to 9,
  below the bound of ten milliseconds for every draw, and zero for some.
\<close>

theorem jitter_below_bound:
  assumes "reconcile r request = ((result, jo, None), tr)"
    and "Requeue result" and "RequeueAfter result = 0"
  shows "fst (Reconcile r request st) =
           Return \<lparr>Requeue = True, RequeueAfter = int (rand_source r mod 10) * Millisecond\<rparr> None \<and>
         0 \<le> int (rand_source r mod 10) * Millisecond \<and>
         int (rand_source r mod 10) * Millisecond < 10 * Millisecond"
proof -
  have "result\<lparr>RequeueAfter := int (rand_source r mod 10) * Millisecond\<rparr> =
      \<lparr>Requeue = True, RequeueAfter = int (rand_source r mod 10) * Millisecond\<rparr>"
    using assms(2) by (cases result) simp
  then show ?thesis
    using assms by (simp add: Reconcile_def Reconcile_classify_def rand_Intn_def Millisecond_def)
qed

lemma requeue_pass:
  assumes "pk r = pkgs0" and "client_Get r req0 = Inr jenkins_done"
    and "base_Validate r jenkins_done = Inr []"
    and "base_Reconcile r jenkins_done = Inr (\<lparr>Requeue = True, RequeueAfter = 0\<rparr>, False)"
  shows "reconcile r req0 =
     ((\<lparr>Requeue = True, RequeueAfter = 0\<rparr>, Some jenkins_done, None),
      [Get req0, BaseValidate, BaseReconcile])"
proof -
  have "defaulted (pk r) jenkins_done"
    using jenkins_defaulted_defaulted assms(1) by (simp add: jenkins_done_def)
  then have sd: "setDefaults r jenkins_done = ((False, None), jenkins_done, [])"
    by (rule defaulted_fix)
  have ad: "AnnotationsDeprecated (Master (Spec jenkins_done)) = []"
    using setDefaults_keeps(3) [of r0 jenkins0]
    by (simp add: jenkins_done_def jenkins_defaulted_def jenkins0_def)
  have b: "reconcile_base r jenkins_done =
      ((\<lparr>Requeue = True, RequeueAfter = 0\<rparr>, Some jenkins_done, None), [BaseValidate, BaseReconcile])"
    by (simp add: reconcile_base_def assms)
  show ?thesis
    unfolding reconcile_def assms(2) by (simp add: sd handleDeprecatedData_eq ad b)
qed

lemma r_requeue_fields:
  "pk r_requeue = pkgs0" "client_Get r_requeue req0 = Inr jenkins_done"
  "base_Validate r_requeue jenkins_done = Inr []"
  "base_Reconcile r_requeue jenkins_done = Inr (\<lparr>Requeue = True, RequeueAfter = 0\<rparr>, False)"
  "rand_source r_requeue = 0"
  "pk r_requeue7 = pkgs0" "client_Get r_requeue7 req0 = Inr jenkins_done"
  "base_Validate r_requeue7 jenkins_done = Inr []"
  "base_Reconcile r_requeue7 jenkins_done = Inr (\<lparr>Requeue = True, RequeueAfter = 0\<rparr>, False)"
  "rand_source r_requeue7 = 7"
  by (simp_all add: r_requeue7_def r_requeue_def r_done_def r0_def)

text \<open>
  Claim C6, as stated, fails: when the random source draws a multiple of ten the
  delay is zero. Here the base configuration asks for a requeue with no delay, and the
  wrapper returns \<^verbatim>\<open>Requeue: true\<close> with \<^verbatim>\<open>RequeueAfter\<close> zero.
\<close>

theorem jitter_nonzero_counterexample:
  "reconcile r_requeue req0 =
     ((\<lparr>Requeue = True, RequeueAfter = 0\<rparr>, Some jenkins_done, None),
      [Get req0, BaseValidate, BaseReconcile]) \<and>
   fst (Reconcile r_requeue req0 st0) = Return \<lparr>Requeue = True, RequeueAfter = 0\<rparr> None"
proof -
  have p: "reconcile r_requeue req0 =
     ((\<lparr>Requeue = True, RequeueAfter = 0\<rparr>, Some jenkins_done, None),
      [Get req0, BaseValidate, BaseReconcile])"
    by (rule requeue_pass) (rule r_requeue_fields)+
  have "fst (Reconcile r_requeue req0 st0) = Return \<lparr>Requeue = True, RequeueAfter = 0\<rparr> None"
    unfolding Reconcile_def p
    by (simp add: Reconcile_classify_def rand_Intn_def r_requeue_fields)
  with p show ?thesis by simp
qed

theorem jitter_below_bound_witness:
  "reconcile r_requeue7 req0 =
     ((\<lparr>Requeue = True, RequeueAfter = 0\<rparr>, Some jenkins_done, None),
      [Get req0, BaseValidate, BaseReconcile]) \<and>
   fst (Reconcile r_requeue7 req0 st0) = Return \<lparr>Requeue = True, RequeueAfter = 7000000\<rparr> None \<and>
   (7000000 :: int) < 10 * Millisecond"
proof -
  have p: "reconcile r_requeue7 req0 =
     ((\<lparr>Requeue = True, RequeueAfter = 0\<rparr>, Some jenkins_done, None),
      [Get req0, BaseValidate, BaseReconcile])"
    by (rule requeue_pass) (rule r_requeue_fields)+
  show ?thesis
    using p jitter_below_bound [OF p, of st0] by (simp add: r_requeue_fields Millisecond_def)
qed


lemma reconcile_user_doc: "\<exists>res j' eo tr. reconcile_user r j = ((res, Some j', eo), tr)"
  by (simp add: reconcile_user_def Let_def split: sum.splits option.splits)

lemma reconcile_base_doc: "\<exists>res j' eo tr. reconcile_base r j = ((res, Some j', eo), tr)"
  using reconcile_user_doc [of r j]
    reconcile_user_doc [of r "Status_update (BaseConfigurationCompletedTime_update (\<lambda>_. Some (metav1_Now r 0))) j"]
  by (auto simp: reconcile_base_def Let_def split: sum.splits option.splits)

lemma reconcile_nil_doc:
  assumes "reconcile r request = ((result, None, Some e), tr)"
  shows "\<exists>e'. e = WithStack e'"
proof (cases "client_Get r request")
  case (Inl e0)
  then show ?thesis
    using assms by (auto simp: reconcile_def errors_WithStack_def split: if_splits)
next
  case (Inr jenkins)
  obtain y j1 tr1 where sd0: "setDefaults r jenkins = (y, j1, tr1)"
    by (cases "setDefaults r jenkins")
  obtain rq1 e1 where y: "y = (rq1, e1)" by (cases y)
  note sd = sd0 [unfolded y]
  show ?thesis
    using assms reconcile_base_doc [of r j1] reconcile_base_doc [of r "migrated j1"]
    by (auto simp: reconcile_def Inr sd handleDeprecatedData_eq split: if_splits)
qed

text \<open>
  Claim C10. When the inner pass returns a remote script failure, it returns a document
  with it, and the wrapper first records the error in the failure map (creating,
  incrementing or resetting the entry of the identity). It then returns
  \<^verbatim>\<open>Requeue: false\<close> after exactly one notification, a warning of the base
  phase from the operator: the generic "reconcile loop failed" warning with the message
  of the error when the updated count has reached the limit of ten, and the detailed
  warning of the failed script, its verbose text ending in the remote logs, only when
  the count is below it.
\<close>

theorem groovy_failure_counts_then_notifies:
  assumes "reconcile r request = ((result, jo, Some e), tr)"
    and "asGroovyScriptExecutionFailed e = Some g"
  shows "\<exists>j. jo = Some j \<and>
    (let name = Request_Name request;
         entry = (case reconcileErrors st name of
                    None \<Rightarrow> \<lparr>err = e, counter = 1\<rparr>
                  | Some lastErrors \<Rightarrow>
                      if Error r e = Error r (err lastErrors)
                      then \<lparr>err = err lastErrors, counter = counter lastErrors + 1\<rparr>
                      else \<lparr>err = e, counter = 1\<rparr>);
         failed = ConfigurationType g @ '' Source '' @ [CHR 0x27] @ Source g @ [CHR 0x27] @
                  '' Name '' @ [CHR 0x27] @ Groovy_Name g @ [CHR 0x27] @
                  '' groovy script execution failed'';
         notice = (if 10 \<le> counter entry
                   then \<lparr>Event_Jenkins = j, Event_Phase = PhaseBase,
                         Event_Level = NotificationLevelWarning,
                         Event_Reason = NewReconcileLoopFailed OperatorSource
                           [''Reconcile loop failed 10 times with the same error, giving up: '' @
                            Error r e] []\<rparr>
                   else \<lparr>Event_Jenkins = j, Event_Phase = PhaseBase,
                         Event_Level = NotificationLevelWarning,
                         Event_Reason = NewGroovyScriptExecutionFailed OperatorSource
                           [failed] [failed @ '', logs: '' @ Logs g]\<rparr>)
     in Reconcile r request st =
          (Return \<lparr>Requeue = False, RequeueAfter = 0\<rparr> None,
           \<lparr>reconcileErrors = (reconcileErrors st)(name \<mapsto> entry),
            trace = trace st @ tr @ [Notify notice]\<rparr>))"
proof -
  have "jo \<noteq> None"
  proof
    assume "jo = None"
    with assms(1) obtain e' where "e = WithStack e'" using reconcile_nil_doc by blast
    with assms(2) show False by simp
  qed
  then obtain j where j: "jo = Some j" by auto
  have e: "e = GroovyError g" using assms(2) by (cases e) simp_all
  have upd: "lastErrors\<lparr>counter := c\<rparr> = \<lparr>err = err lastErrors, counter = c\<rparr>" for lastErrors c
    by (cases lastErrors) simp
  have st: "st\<lparr>reconcileErrors := m, trace := t\<rparr> = \<lparr>reconcileErrors = m, trace = t\<rparr>" for m t
    by (cases st) simp
  show ?thesis
    by (cases "reconcileErrors st (Request_Name request)")
       (simp_all add: j e Reconcile_def assms(1) Reconcile_classify_def Let_def Result_zero_def
          recordError_def reconcileFailLimit_def loopFailedEvent_def loopFailedMessage_def
          groovyFailedEvent_def groovyFailedMessage_def upd st)
qed

lemma r_groovy_fields:
  "pk r_groovy = pkgs0" "client_Get r_groovy req0 = Inr jenkins_done"
  "base_Validate r_groovy jenkins_done = Inr []"
  "base_Reconcile r_groovy jenkins_done = Inl (GroovyError groovy0)"
  "Error r_groovy = message"
  by (simp_all add: r_groovy_def r_done_def r0_def)

lemma r_groovy_pass:
  "reconcile r_groovy req0 =
     ((Result_zero, Some jenkins_done, Some (GroovyError groovy0)),
      [Get req0, BaseValidate, BaseReconcile])"
proof -
  have "defaulted (pk r_groovy) jenkins_done"
    using jenkins_defaulted_defaulted by (simp add: jenkins_done_def r_groovy_fields)
  then have sd: "setDefaults r_groovy jenkins_done = ((False, None), jenkins_done, [])"
    by (rule defaulted_fix)
  have ad: "AnnotationsDeprecated (Master (Spec jenkins_done)) = []"
    using setDefaults_keeps(3) [of r0 jenkins0]
    by (simp add: jenkins_done_def jenkins_defaulted_def jenkins0_def)
  have b: "reconcile_base r_groovy jenkins_done =
      ((Result_zero, Some jenkins_done, Some (GroovyError groovy0)), [BaseValidate, BaseReconcile])"
    by (simp add: reconcile_base_def r_groovy_fields)
  show ?thesis
    unfolding reconcile_def r_groovy_fields(2) by (simp add: sd handleDeprecatedData_eq ad b)
qed

theorem groovy_failure_counts_then_notifies_witness:
  "reconcile r_groovy req0 =
     ((Result_zero, Some jenkins_done, Some (GroovyError groovy0)),
      [Get req0, BaseValidate, BaseReconcile]) \<and>
   asGroovyScriptExecutionFailed (GroovyError groovy0) = Some groovy0 \<and>
   Reconcile r_groovy req0 st0 =
     (Return \<lparr>Requeue = False, RequeueAfter = 0\<rparr> None,
      \<lparr>reconcileErrors = [''x'' \<mapsto> \<lparr>err = GroovyError groovy0, counter = 1\<rparr>],
       trace = [Get req0, BaseValidate, BaseReconcile,
                Notify \<lparr>Event_Jenkins = jenkins_done, Event_Phase = PhaseBase,
                  Event_Level = NotificationLevelWarning,
                  Event_Reason = NewGroovyScriptExecutionFailed OperatorSource
                    [''user Source '' @ [CHR 0x27] @ ''configmap'' @ [CHR 0x27] @ '' Name '' @
                     [CHR 0x27] @ ''init.groovy'' @ [CHR 0x27] @ '' groovy script execution failed'']
                    [''user Source '' @ [CHR 0x27] @ ''configmap'' @ [CHR 0x27] @ '' Name '' @
                     [CHR 0x27] @ ''init.groovy'' @ [CHR 0x27] @
                     '' groovy script execution failed, logs: MissingPropertyException'']\<rparr>]\<rparr>) \<and>
   Reconcile r_groovy req0 st9 =
     (Return \<lparr>Requeue = False, RequeueAfter = 0\<rparr> None,
      \<lparr>reconcileErrors = [''x'' \<mapsto> \<lparr>err = GroovyError groovy0, counter = 10\<rparr>],
       trace = [Get req0, BaseValidate, BaseReconcile,
                Notify \<lparr>Event_Jenkins = jenkins_done, Event_Phase = PhaseBase,
                  Event_Level = NotificationLevelWarning,
                  Event_Reason = NewReconcileLoopFailed OperatorSource
                    [''Reconcile loop failed 10 times with the same error, giving up: script execution failed: init.groovy'']
                    []\<rparr>]\<rparr>)"
proof -
  have a: "asGroovyScriptExecutionFailed (GroovyError groovy0) = Some groovy0" by simp
  show ?thesis
    using a r_groovy_pass
      groovy_failure_counts_then_notifies [OF r_groovy_pass a, of st0]
      groovy_failure_counts_then_notifies [OF r_groovy_pass a, of st9]
    by (simp add: Let_def st0_def st9_def req0_def r_groovy_fields groovy0_def limit_above_one)
qed

lemma unreadable_pass:
  "reconcile r_unreadable req0 = ((Result_zero, None, Some (WithStack internalError)), [Get req0])"
  by (simp add: reconcile_def r_unreadable_def r0_def internalError_def errors_WithStack_def)

lemma r_unreadable_conflict: "\<not> IsConflict (WithStack internalError)"
  by simp

lemma unreadable_call:
  "Reconcile r_unreadable req0 st =
     (let entry = recordError r_unreadable (reconcileErrors st ''x'') (WithStack internalError);
          st' = \<lparr>reconcileErrors = (reconcileErrors st)(''x'' \<mapsto> entry), trace = trace st @ [Get req0]\<rparr>
      in if reconcileFailLimit \<le> counter entry then (Panic 140, st') else (requeueNow, st'))"
proof -
  have n: "Request_Name req0 = ''x''" by (simp add: req0_def)
  show ?thesis
    unfolding Reconcile_def unreadable_pass
    by (simp add: Reconcile_classify_def Let_def requeueNow_def Result_zero_def n
          r_unreadable_conflict)
qed

text \<open>
  Claim C2 asks that the wrapper never panics. With a store whose read fails in the
  same way every time, the inner pass returns a nil document with the error; the ninth
  call still asks for a requeue, and on the tenth the breaker branch dereferences the
  nil document at line 140.
\<close>

theorem read_failure_panics_on_tenth_call:
  "fst (Reconcile_times r_unreadable req0 10 st0) =
     [requeueNow, requeueNow, requeueNow, requeueNow, requeueNow, requeueNow, requeueNow,
      requeueNow, requeueNow, Panic 140]"
proof -
  have ten: "(10::nat) = Suc (Suc (Suc (Suc (Suc (Suc (Suc (Suc (Suc (Suc 0)))))))))" by simp
  show ?thesis
    unfolding ten
    by (simp add: unreadable_call Let_def recordError_def st0_def reconcileFailLimit_def
          requeueNow_def limit_above_one)
qed
























end
